theory Spec2Isabelle
  imports Complex_Main
begin

section \<open>Python values and errors\<close>

text \<open>
  The services pass JSON-like Python values around (\<^verbatim>\<open>Dict[str, Any]\<close>): contexts,
  intent metadata, parsed model output. A dictionary is an association list in insertion
  order. Numbers are rationals: a float is the rational it denotes, and floats are
  compared as rationals. The running average of \<open>add_message\<close> is computed with the
  rounding of each float operation written out.
\<close>

datatype pyval =
    PNone
  | PBool bool
  | PNum rat
  | PStr string
  | PList "pyval list"
  | PDict "(string \<times> pyval) list"

text \<open>Every \<^verbatim>\<open>raise\<close> of the source, and every exception its library calls throw.\<close>

datatype error =
    ValueError
  | TypeError
  | KeyError
  | AttributeError
  | ValidationError
  | UnicodeDecodeError
  | RedisError
  | APIError

text \<open>\<^verbatim>\<open>d.get(k)\<close>: the value under the key, if any.\<close>

definition dict_get :: "(string \<times> pyval) list \<Rightarrow> string \<Rightarrow> pyval option" where
  "dict_get d k = map_of d k"

text \<open>\<^verbatim>\<open>d[k] = v\<close>: an existing key keeps its position, a new key goes last.\<close>

fun dict_set :: "string \<Rightarrow> pyval \<Rightarrow> (string \<times> pyval) list \<Rightarrow> (string \<times> pyval) list" where
  "dict_set k v [] = [(k, v)]"
| "dict_set k v (p # ps) = (if fst p = k then (k, v) # ps else p # dict_set k v ps)"

text \<open>\<^verbatim>\<open>d.update(e)\<close>: the entries of \<open>e\<close> are assigned in order.\<close>

fun dict_update :: "(string \<times> pyval) list \<Rightarrow> (string \<times> pyval) list \<Rightarrow> (string \<times> pyval) list" where
  "dict_update d [] = d"
| "dict_update d (p # ps) = dict_update (dict_set (fst p) (snd p) d) ps"

text \<open>Python's truth value of an object, as \<^verbatim>\<open>if x:\<close> tests it.\<close>

fun truthy :: "pyval \<Rightarrow> bool" where
  "truthy PNone = False"
| "truthy (PBool b) = b"
| "truthy (PNum r) = (r \<noteq> 0)"
| "truthy (PStr s) = (s \<noteq> [])"
| "truthy (PList l) = (l \<noteq> [])"
| "truthy (PDict d) = (d \<noteq> [])"

text \<open>
  \<^verbatim>\<open>x < c\<close> for a float \<open>c\<close>: numbers compare, a bool counts as 0 or 1, and every
  other operand raises TypeError.
\<close>

fun py_less :: "pyval \<Rightarrow> rat \<Rightarrow> error + bool" where
  "py_less (PNum r) c = Inr (r < c)"
| "py_less (PBool b) c = Inr ((if b then 1 else 0) < c)"
| "py_less _ c = Inl TypeError"

section \<open>The intent model\<close>

datatype IntentType = GREETING | QUESTION | COMPLAINT | REQUEST_HUMAN | FAREWELL | UNKNOWN

fun IntentType_value :: "IntentType \<Rightarrow> string" where
  "IntentType_value GREETING = ''greeting''"
| "IntentType_value QUESTION = ''question''"
| "IntentType_value COMPLAINT = ''complaint''"
| "IntentType_value REQUEST_HUMAN = ''request_human''"
| "IntentType_value FAREWELL = ''farewell''"
| "IntentType_value UNKNOWN = ''unknown''"

text \<open>
  Both modules (\<^verbatim>\<open>models/intent.py\<close> and \<^verbatim>\<open>models/conversation.py\<close>) declare a class
  \<^verbatim>\<open>Intent\<close> with the same four fields.
\<close>

record Intent =
  itype :: IntentType
  confidence :: rat
  requires_human :: bool
  metadata :: "(string \<times> pyval) list"

text \<open>
  \<^verbatim>\<open>Intent.should_handoff(confidence_threshold=0.7)\<close> of \<^verbatim>\<open>models/intent.py\<close>: the
  threshold check, then four rules in the source's order.
\<close>

definition should_handoff :: "Intent \<Rightarrow> rat \<Rightarrow> error + bool" where
  "should_handoff self confidence_threshold =
     (if \<not> (0 \<le> confidence_threshold \<and> confidence_threshold \<le> 1) then Inl ValueError
      else if requires_human self then Inr True
      else if confidence self < confidence_threshold then Inr True
      else if itype self = REQUEST_HUMAN then Inr True
      else if itype self = COMPLAINT \<and> confidence self < 0.9 then Inr True
      else Inr False)"

definition DEFAULT_HANDOFF_THRESHOLD :: rat where
  "DEFAULT_HANDOFF_THRESHOLD = 0.7"

text \<open>
  \<^verbatim>\<open>Intent.should_handoff()\<close> of \<^verbatim>\<open>models/conversation.py\<close>: no threshold argument, no
  complaint rule, two metadata rules. \<^verbatim>\<open>metadata.get("sentiment_score", 1.0) < 0.3\<close>
  raises TypeError on a value that is no number; \<^verbatim>\<open>metadata.get("urgent", False)\<close> is
  tested for its truth value.
\<close>

definition should_handoff_conversation_py :: "Intent \<Rightarrow> error + bool" where
  "should_handoff_conversation_py self =
     (if requires_human self then Inr True
      else if confidence self < DEFAULT_HANDOFF_THRESHOLD then Inr True
      else if itype self = REQUEST_HUMAN then Inr True
      else
        (case py_less (case dict_get (metadata self) ''sentiment_score'' of
                         None \<Rightarrow> PNum 1 | Some v \<Rightarrow> v) 0.3 of
           Inl e \<Rightarrow> Inl e
         | Inr True \<Rightarrow> Inr True
         | Inr False \<Rightarrow>
             (if truthy (case dict_get (metadata self) ''urgent'' of
                           None \<Rightarrow> PBool False | Some v \<Rightarrow> v)
              then Inr True
              else Inr False)))"

text \<open>
  The rule as the specification words it, for comparison with the two methods: true if any
  of the six conditions holds, the last two read as "the metadata holds a number below 0.3
  under \<open>sentiment_score\<close>" and "the metadata holds \<open>True\<close> under \<open>urgent\<close>".
\<close>

definition spec_shouldHandoff :: "Intent \<Rightarrow> rat \<Rightarrow> bool" where
  "spec_shouldHandoff i threshold' =
     (requires_human i
      \<or> confidence i < threshold'
      \<or> itype i = REQUEST_HUMAN
      \<or> (itype i = COMPLAINT \<and> confidence i < 0.9)
      \<or> (case dict_get (metadata i) ''sentiment_score'' of Some (PNum x) \<Rightarrow> x < 0.3 | _ \<Rightarrow> False)
      \<or> dict_get (metadata i) ''urgent'' = Some (PBool True))"

section \<open>Floating-point arithmetic\<close>

text \<open>
  A Python \<^verbatim>\<open>float\<close> is an IEEE 754 binary64 number. The model keeps a float as the
  rational number it denotes. An arithmetic operation on floats returns the exact result
  rounded to a float, and an \<^verbatim>\<open>int\<close> operand is converted to a float first; the functions
  of the model that compute with floats take this rounding as their parameter \<open>rnd\<close>.

  \<open>binary64\<close> is the rounding of Python: to the nearest number with 53 significant bits,
  ties to the even significand, with the fixed spacing \<open>1 / 2 ^ 1074\<close> of the subnormal
  numbers below \<open>1 / 2 ^ 1022\<close>. The overflow to infinity beyond the largest float is left
  out: the magnitudes that occur below stay far from it.
\<close>

text \<open>The integer nearest to a rational, the even one of the two at a tie.\<close>

definition nearest_even :: "rat \<Rightarrow> int" where
  "nearest_even y =
     (let f = \<lfloor>y\<rfloor>; r = y - of_int f
      in if r < 1 / 2 then f else if 1 / 2 < r then f + 1 else if even f then f else f + 1)"

text \<open>The largest power of two that is at most \<open>x\<close>, for \<open>x\<close> from 1 on.\<close>

function pow2_up :: "rat \<Rightarrow> rat" where
  "pow2_up x = (if x < 2 then 1 else 2 * pow2_up (x / 2))"
  by pat_completeness auto
termination
  by (relation "measure (\<lambda>x. nat \<lfloor>x\<rfloor>)") (simp_all, linarith)

declare pow2_up.simps [simp del]

text \<open>
  The largest power of two that is at most \<open>x\<close>, for a positive \<open>x\<close> below 1, but no
  smaller than \<open>1 / 2 ^ n\<close>.
\<close>

fun pow2_down :: "nat \<Rightarrow> rat \<Rightarrow> rat" where
  "pow2_down 0 x = 1"
| "pow2_down (Suc n) x = (if 1 \<le> x then 1 else pow2_down n (2 * x) / 2)"

text \<open>
  The weight of the leading bit of a positive number, and \<open>1 / 2 ^ 1022\<close> for the
  numbers below that; the spacing of the floats around the number is this weight divided
  by \<open>2 ^ 52\<close>.
\<close>

definition leading_bit :: "rat \<Rightarrow> rat" where
  "leading_bit x = (if 1 \<le> x then pow2_up x else pow2_down 1022 x)"

definition binary64 :: "rat \<Rightarrow> rat" where
  "binary64 x =
     (if x = 0 then 0
      else let q = leading_bit \<bar>x\<bar> / 2 ^ 52 in q * of_int (nearest_even (x / q)))"

section \<open>Messages and conversations\<close>

datatype MessageDirection = INBOUND | OUTBOUND

datatype ConversationStatus = ACTIVE | HUMAN_NEEDED | COMPLETED | ARCHIVED

text \<open>
  A UUID is kept as its text; a \<^verbatim>\<open>datetime\<close> is a number of microseconds since the
  epoch.
\<close>

type_synonym uuid = string
type_synonym datetime = int

record Message =
  m_id :: uuid
  conversation_id :: uuid
  content :: string
  direction :: MessageDirection
  ai_confidence :: rat
  intent :: "Intent option"
  m_metadata :: "(string \<times> pyval) list"
  m_created_at :: datetime
  m_updated_at :: datetime

record Conversation =
  c_id :: uuid
  lead_id :: uuid
  status :: ConversationStatus
  messages :: "Message list"
  current_intent :: "Intent option"
  human_agent_id :: "uuid option"
  ai_confidence_avg :: rat
  c_metadata :: "(string \<times> pyval) list"
  c_created_at :: datetime
  c_updated_at :: datetime

text \<open>
  \<^verbatim>\<open>Conversation.add_message\<close> mutates the conversation in place and returns nothing. The
  model returns what the call raised, if anything, together with the conversation as the
  call leaves it: an exception raised after the append keeps what was written before it.
  \<open>now\<close> is the reading of \<^verbatim>\<open>datetime.utcnow()\<close>. The average is computed in floats:
  the two counts are converted to floats, and the product, the sum and the quotient are
  each rounded by \<open>rnd\<close>.
\<close>

definition add_message ::
    "(rat \<Rightarrow> rat) \<Rightarrow> datetime \<Rightarrow> Message \<Rightarrow> Conversation \<Rightarrow> (error + unit) \<times> Conversation" where
  "add_message rnd now message self =
     (if conversation_id message \<noteq> c_id self then (Inl ValueError, self)
      else
        let self1 = self\<lparr>messages := messages self @ [message]\<rparr>;
            message_count = length (messages self1);
            self2 = self1\<lparr>ai_confidence_avg :=
                      rnd (rnd (rnd (ai_confidence_avg self1 * rnd (of_nat (message_count - 1)))
                                + ai_confidence message)
                           / rnd (of_nat message_count))\<rparr>
        in (case intent message of
              None \<Rightarrow> (Inr (), self2\<lparr>c_updated_at := now\<rparr>)
            | Some i \<Rightarrow>
                let self3 = self2\<lparr>current_intent := Some i\<rparr>
                in (case should_handoff_conversation_py i of
                      Inl e \<Rightarrow> (Inl e, self3)
                    | Inr True \<Rightarrow> (Inr (), self3\<lparr>status := HUMAN_NEEDED, c_updated_at := now\<rparr>)
                    | Inr False \<Rightarrow> (Inr (), self3\<lparr>c_updated_at := now\<rparr>))))"

text \<open>
  A caller appending one message after the other, each call at its own time; the first
  exception ends the run.
\<close>

fun add_messages ::
    "(rat \<Rightarrow> rat) \<Rightarrow> (datetime \<times> Message) list \<Rightarrow> Conversation \<Rightarrow> (error + unit) \<times> Conversation" where
  "add_messages rnd [] self = (Inr (), self)"
| "add_messages rnd (tm # tms) self =
     (case add_message rnd (fst tm) (snd tm) self of
        (Inl e, self') \<Rightarrow> (Inl e, self')
      | (Inr u, self') \<Rightarrow> add_messages rnd tms self')"

text \<open>
  A message can be appended to a conversation when it belongs to it and the handoff test
  of its intent, if it carries one, does not raise.
\<close>

definition appendable :: "Conversation \<Rightarrow> Message \<Rightarrow> bool" where
  "appendable self message =
     (conversation_id message = c_id self \<and>
      (case intent message of None \<Rightarrow> True | Some i \<Rightarrow> \<not> isl (should_handoff_conversation_py i)))"

section \<open>Library functions\<close>

text \<open>
  The services call the standard library (\<^verbatim>\<open>json\<close>, \<^verbatim>\<open>zlib\<close>, \<^verbatim>\<open>datetime\<close>, the
  UTF-8 codec of \<^verbatim>\<open>str.encode\<close> and \<^verbatim>\<open>bytes.decode\<close>) and pydantic. None of them is
  part of the repository, so the model takes them as parameters: every statement below
  holds for whatever these functions compute. \<open>None\<close> is the call raising:
  \<^verbatim>\<open>json.JSONDecodeError\<close>, \<^verbatim>\<open>UnicodeDecodeError\<close>, \<^verbatim>\<open>zlib.error\<close>, or pydantic
  rejecting a value for a field of the given type.
\<close>

datatype bytes = Bytes string

fun bytes_len :: "bytes \<Rightarrow> nat" where
  "bytes_len (Bytes b) = length b"

record pylib =
  isoformat :: "datetime \<Rightarrow> string"
  json_dumps :: "pyval \<Rightarrow> string"
  json_loads :: "string \<Rightarrow> pyval option"
  str_encode :: "string \<Rightarrow> bytes"
  bytes_decode :: "bytes \<Rightarrow> string option"
  zlib_compress :: "bytes \<Rightarrow> bytes"
  zlib_decompress :: "bytes \<Rightarrow> bytes option"
  as_IntentType :: "pyval \<Rightarrow> IntentType option"
  as_float :: "pyval \<Rightarrow> rat option"
  as_bool :: "pyval \<Rightarrow> bool option"

text \<open>\<^verbatim>\<open>json.loads\<close> of a \<^verbatim>\<open>bytes\<close> object decodes it first.\<close>

definition json_loads_bytes :: "pylib \<Rightarrow> bytes \<Rightarrow> error + pyval" where
  "json_loads_bytes lib b =
     (case bytes_decode lib b of
        None \<Rightarrow> Inl UnicodeDecodeError
      | Some s \<Rightarrow> (case json_loads lib s of None \<Rightarrow> Inl ValueError | Some v \<Rightarrow> Inr v))"

text \<open>\<^verbatim>\<open>s.startswith(p)\<close>.\<close>

definition startswith :: "string \<Rightarrow> string \<Rightarrow> bool" where
  "startswith s p = (take (length p) s = p)"

text \<open>\<^verbatim>\<open>s.strip()\<close>: the white space of a \<^verbatim>\<open>str\<close>, among the first 256 code points.\<close>

definition is_space :: "char \<Rightarrow> bool" where
  "is_space c = (of_char c \<in> {9, 10, 11, 12, 13, 28, 29, 30, 31, 32, 133, 160 :: nat})"

definition strip :: "string \<Rightarrow> string" where
  "strip s = rev (dropWhile is_space (rev (dropWhile is_space s)))"

text \<open>\<^verbatim>\<open>x[k]\<close> for a string key: KeyError on a dictionary without it, TypeError elsewhere.\<close>

fun subscript :: "pyval \<Rightarrow> string \<Rightarrow> error + pyval" where
  "subscript (PDict d) k = (case dict_get d k of None \<Rightarrow> Inl KeyError | Some v \<Rightarrow> Inr v)"
| "subscript _ k = Inl TypeError"

text \<open>\<^verbatim>\<open>x[-5:]\<close>: lists and strings slice, everything else raises.\<close>

fun last_five :: "pyval \<Rightarrow> error + pyval" where
  "last_five (PList l) = Inr (PList (drop (length l - 5) l))"
| "last_five (PStr s) = Inr (PStr (drop (length s - 5) s))"
| "last_five _ = Inl TypeError"

section \<open>Constructors validated by pydantic\<close>

text \<open>
  \<^verbatim>\<open>Intent.__init__(**data)\<close> of \<^verbatim>\<open>models/intent.py\<close>. The keyword arguments are a record
  of options, \<open>None\<close> for an argument the caller leaves out. The metadata argument is any
  Python value: \<^verbatim>\<open>metadata.update\<close> exists on a dictionary only. After the update
  pydantic checks the declared fields: \<^verbatim>\<open>type\<close> and \<^verbatim>\<open>confidence\<close> are required,
  \<^verbatim>\<open>confidence\<close> has \<^verbatim>\<open>ge=0.0, le=1.0\<close>, \<^verbatim>\<open>requires_human\<close> defaults to False.
\<close>

record Intent_data =
  d_type :: "IntentType option"
  d_confidence :: "rat option"
  d_requires_human :: "bool option"
  d_metadata :: "pyval option"

definition Intent_init :: "pylib \<Rightarrow> datetime \<Rightarrow> Intent_data \<Rightarrow> error + Intent" where
  "Intent_init lib now data =
     (case (case d_metadata data of
              None \<Rightarrow> Inr []
            | Some (PDict d) \<Rightarrow> Inr d
            | Some _ \<Rightarrow> Inl AttributeError) of
        Inl e \<Rightarrow> Inl e
      | Inr metadata0 \<Rightarrow>
          let metadata1 = dict_update metadata0
                [(''created_at'', PStr (isoformat lib now)), (''model_version'', PStr ''1.0.0'')]
          in (case (d_type data, d_confidence data) of
                (Some t, Some c) \<Rightarrow>
                  if 0 \<le> c \<and> c \<le> 1
                  then Inr \<lparr>itype = t, confidence = c,
                            requires_human = (case d_requires_human data of None \<Rightarrow> False | Some b \<Rightarrow> b),
                            metadata = metadata1\<rparr>
                  else Inl ValidationError
              | _ \<Rightarrow> Inl ValidationError))"

text \<open>
  \<^verbatim>\<open>Intent(type=..., confidence=..., requires_human=...)\<close> of \<^verbatim>\<open>models/conversation.py\<close>,
  as \<^verbatim>\<open>classify_intent\<close> calls it on the values of the parsed model output: pydantic
  converts each value to the field's type or rejects it, and checks the bounds of
  \<^verbatim>\<open>confidence\<close>. This class has no \<^verbatim>\<open>__init__\<close> of its own: metadata is the empty
  default.
\<close>

definition Intent_of_values :: "pylib \<Rightarrow> pyval \<Rightarrow> pyval \<Rightarrow> pyval \<Rightarrow> error + Intent" where
  "Intent_of_values lib t c r =
     (case (as_IntentType lib t, as_float lib c, as_bool lib r) of
        (Some t', Some c', Some r') \<Rightarrow>
          if 0 \<le> c' \<and> c' \<le> 1
          then Inr \<lparr>itype = t', confidence = c', requires_human = r', metadata = []\<rparr>
          else Inl ValidationError
      | _ \<Rightarrow> Inl ValidationError)"

text \<open>
  \<^verbatim>\<open>Message(**data)\<close>: \<^verbatim>\<open>id\<close>, \<^verbatim>\<open>conversation_id\<close>, \<^verbatim>\<open>content\<close>, \<^verbatim>\<open>direction\<close> and
  \<^verbatim>\<open>ai_confidence\<close> are declared \<^verbatim>\<open>Field(...)\<close>, that is required (the tests of the
  intent model expect a ValueError for a missing required field); \<^verbatim>\<open>content\<close> has
  \<^verbatim>\<open>min_length=1\<close> and \<^verbatim>\<open>ai_confidence\<close> the bounds 0 and 1; \<^verbatim>\<open>intent\<close> defaults to
  None, \<^verbatim>\<open>metadata\<close> to an empty dictionary and both timestamps to the current time.
\<close>

record Message_data =
  d_id :: "uuid option"
  d_conversation_id :: "uuid option"
  d_content :: "string option"
  d_direction :: "MessageDirection option"
  d_ai_confidence :: "rat option"
  d_intent :: "Intent option"

definition Message_init :: "datetime \<Rightarrow> Message_data \<Rightarrow> error + Message" where
  "Message_init now data =
     (case (d_id data, d_conversation_id data, d_content data, d_direction data, d_ai_confidence data) of
        (Some i, Some cid, Some text, Some dir, Some conf) \<Rightarrow>
          if 1 \<le> length text \<and> 0 \<le> conf \<and> conf \<le> 1
          then Inr \<lparr>m_id = i, conversation_id = cid, content = text, direction = dir,
                    ai_confidence = conf, intent = d_intent data, m_metadata = [],
                    m_created_at = now, m_updated_at = now\<rparr>
          else Inl ValidationError
      | _ \<Rightarrow> Inl ValidationError)"

fun MessageDirection_value :: "MessageDirection \<Rightarrow> string" where
  "MessageDirection_value INBOUND = ''inbound''"
| "MessageDirection_value OUTBOUND = ''outbound''"

fun ConversationStatus_value :: "ConversationStatus \<Rightarrow> string" where
  "ConversationStatus_value ACTIVE = ''active''"
| "ConversationStatus_value HUMAN_NEEDED = ''human_needed''"
| "ConversationStatus_value COMPLETED = ''completed''"
| "ConversationStatus_value ARCHIVED = ''archived''"

text \<open>\<^verbatim>\<open>Message.to_dict\<close>.\<close>

definition Message_to_dict :: "pylib \<Rightarrow> Message \<Rightarrow> pyval" where
  "Message_to_dict lib self =
     PDict ([(''id'', PStr (m_id self)),
             (''conversation_id'', PStr (conversation_id self)),
             (''content'', PStr (content self)),
             (''direction'', PStr (MessageDirection_value (direction self))),
             (''ai_confidence'', PNum (ai_confidence self)),
             (''metadata'', PDict (m_metadata self)),
             (''created_at'', PStr (isoformat lib (m_created_at self))),
             (''updated_at'', PStr (isoformat lib (m_updated_at self)))]
            @ (case intent self of
                 None \<Rightarrow> []
               | Some i \<Rightarrow>
                   [(''intent'', PDict [(''type'', PStr (IntentType_value (itype i))),
                                        (''confidence'', PNum (confidence i)),
                                        (''requires_human'', PBool (requires_human i)),
                                        (''metadata'', PDict (metadata i))])]))"

section \<open>The context service\<close>

text \<open>
  The Redis server behind the client: the stored entries (time to live and value), whether
  the server answers, and how many commands the client has sent. A command sent to a
  server that does not answer raises RedisError. Expiry is not modelled: an entry stays
  until it is overwritten or deleted.
\<close>

record Redis =
  entries :: "string \<rightharpoonup> nat \<times> string"
  reachable :: bool
  commands :: nat

definition redis_get :: "Redis \<Rightarrow> string \<Rightarrow> (error + string option) \<times> Redis" where
  "redis_get r key =
     (if reachable r
      then (Inr (map_option snd (entries r key)), r\<lparr>commands := Suc (commands r)\<rparr>)
      else (Inl RedisError, r\<lparr>commands := Suc (commands r)\<rparr>))"

definition redis_setex :: "Redis \<Rightarrow> string \<Rightarrow> nat \<Rightarrow> string \<Rightarrow> (error + bool) \<times> Redis" where
  "redis_setex r key ttl v =
     (if reachable r
      then (Inr True, r\<lparr>entries := (entries r)(key \<mapsto> (ttl, v)), commands := Suc (commands r)\<rparr>)
      else (Inl RedisError, r\<lparr>commands := Suc (commands r)\<rparr>))"

definition redis_delete :: "Redis \<Rightarrow> string \<Rightarrow> (error + nat) \<times> Redis" where
  "redis_delete r key =
     (if reachable r
      then (Inr (if entries r key = None then 0 else 1),
            r\<lparr>entries := (entries r)(key := None), commands := Suc (commands r)\<rparr>)
      else (Inl RedisError, r\<lparr>commands := Suc (commands r)\<rparr>))"

text \<open>The dictionary \<^verbatim>\<open>self.circuit_breaker\<close> and the other fields of the service.\<close>

record breaker =
  failures :: nat
  last_failure :: "datetime option"
  threshold :: nat
  reset_timeout :: nat

record ContextService =
  context_ttl :: nat
  compression_threshold :: nat
  version :: string
  circuit_breaker :: breaker

text \<open>\<^verbatim>\<open>ContextService.__init__\<close>, given the configured time to live.\<close>

definition ContextService_init :: "nat \<Rightarrow> ContextService" where
  "ContextService_init ttl =
     \<lparr>context_ttl = ttl, compression_threshold = 1024, version = ''1.0'',
      circuit_breaker = \<lparr>failures = 0, last_failure = None, threshold = 3, reset_timeout = 30\<rparr>\<rparr>"

text \<open>
  \<^verbatim>\<open>timedelta.seconds\<close> of a difference of two times: the seconds within the day, between
  0 and 86399, not the total number of seconds.
\<close>

definition timedelta_seconds :: "int \<Rightarrow> int" where
  "timedelta_seconds d = (d div 1000000) mod 86400"

text \<open>
  \<^verbatim>\<open>_is_circuit_open\<close>: the answer and the breaker as the call leaves it (it resets the
  breaker when the timeout has passed).
\<close>

definition is_circuit_open :: "datetime \<Rightarrow> breaker \<Rightarrow> bool \<times> breaker" where
  "is_circuit_open now cb =
     (if failures cb \<ge> threshold cb \<and> last_failure cb \<noteq> None
      then
        let elapsed = timedelta_seconds (now - the (last_failure cb))
        in if elapsed < int (reset_timeout cb) then (True, cb)
           else (False, cb\<lparr>failures := 0, last_failure := None\<rparr>)
      else (False, cb))"

text \<open>\<^verbatim>\<open>_record_failure\<close>.\<close>

definition record_failure :: "datetime \<Rightarrow> breaker \<Rightarrow> breaker" where
  "record_failure now cb = cb\<lparr>failures := failures cb + 1, last_failure := Some now\<rparr>"

definition context_key :: "ContextService \<Rightarrow> uuid \<Rightarrow> string" where
  "context_key self conv_id = ''context:'' @ version self @ '':'' @ conv_id"

text \<open>The context returned on a cache miss.\<close>

definition empty_context :: "pylib \<Rightarrow> datetime \<Rightarrow> pyval" where
  "empty_context lib now =
     PDict [(''messages'', PList []), (''metadata'', PDict []), (''created_at'', PStr (isoformat lib now))]"

text \<open>
  Lines 121 to 143 of \<^verbatim>\<open>get_conversation_context\<close>: what the call returns or raises for
  the reply of Redis. \<^verbatim>\<open>if not raw_data\<close> holds for \<^verbatim>\<open>None\<close> and for the empty string.
  \<^verbatim>\<open>raw_data[10:]\<close> drops ten characters. A failed decompression or parse is re-raised as
  ValueError; a failure to decode the decompressed bytes is not among the caught
  exceptions.
\<close>

definition read_raw_data :: "pylib \<Rightarrow> datetime \<Rightarrow> string option \<Rightarrow> error + pyval" where
  "read_raw_data lib now raw_data =
     (case raw_data of
        None \<Rightarrow> Inr (empty_context lib now)
      | Some raw \<Rightarrow>
          if raw = [] then Inr (empty_context lib now)
          else if startswith raw ''compressed:''
          then (case zlib_decompress lib (str_encode lib (drop 10 raw)) of
                  None \<Rightarrow> Inl ValueError
                | Some context_data \<Rightarrow> json_loads_bytes lib context_data)
          else (case json_loads lib raw of
                  None \<Rightarrow> Inl ValueError
                | Some context \<Rightarrow> Inr context))"

text \<open>
  \<^verbatim>\<open>get_conversation_context\<close>. The RedisError raised for an open breaker is raised inside
  the \<^verbatim>\<open>try\<close> block, so the handler records it as a failure like any other. The metrics
  are left out. \<open>now\<close> is the one clock reading of the call.
\<close>

definition get_conversation_context ::
    "pylib \<Rightarrow> datetime \<Rightarrow> uuid \<Rightarrow> ContextService \<times> Redis \<Rightarrow> (error + pyval) \<times> ContextService \<times> Redis" where
  "get_conversation_context lib now conv_id sr =
     (let self = fst sr; r = snd sr;
          key = context_key self conv_id;
          opened = is_circuit_open now (circuit_breaker self);
          self1 = self\<lparr>circuit_breaker := snd opened\<rparr>
      in if fst opened
         then (Inl RedisError, self1\<lparr>circuit_breaker := record_failure now (snd opened)\<rparr>, r)
         else (case redis_get r key of
                 (Inl e, r') \<Rightarrow>
                   (Inl RedisError, self1\<lparr>circuit_breaker := record_failure now (snd opened)\<rparr>, r')
               | (Inr raw_data, r') \<Rightarrow> (read_raw_data lib now raw_data, self1, r')))"

text \<open>
  A stored text is unreadable when the decompression that the read performs on it fails,
  or when the JSON parser rejects the text it is given.
\<close>

definition unreadable :: "pylib \<Rightarrow> string \<Rightarrow> bool" where
  "unreadable lib raw =
     (if startswith raw ''compressed:''
      then (case zlib_decompress lib (str_encode lib (drop 10 raw)) of
              None \<Rightarrow> True
            | Some context_data \<Rightarrow>
                (case bytes_decode lib context_data of
                   None \<Rightarrow> False
                 | Some s \<Rightarrow> json_loads lib s = None))
      else json_loads lib raw = None)"

text \<open>
  A caller reading the context of one conversation again and again: each call has its
  clock reading, and the server answers during the call or does not.
\<close>

fun run_gets ::
    "pylib \<Rightarrow> uuid \<Rightarrow> (datetime \<times> bool) list \<Rightarrow> ContextService \<times> Redis
       \<Rightarrow> (error + pyval) list \<times> ContextService \<times> Redis" where
  "run_gets lib conv_id [] sr = ([], sr)"
| "run_gets lib conv_id (call # calls) sr =
     (let out = get_conversation_context lib (fst call) conv_id
                  (fst sr, (snd sr)\<lparr>reachable := snd call\<rparr>);
          rest = run_gets lib conv_id calls (snd out)
      in (fst out # fst rest, snd rest))"

text \<open>
  Lines 174 to 188 of \<^verbatim>\<open>update_context\<close>: the text that is written for a context
  dictionary.
\<close>

definition stored_text :: "pylib \<Rightarrow> datetime \<Rightarrow> ContextService \<Rightarrow> (string \<times> pyval) list \<Rightarrow> error + string" where
  "stored_text lib now self context =
     (let context1 = dict_set ''updated_at'' (PStr (isoformat lib now)) context;
          context2 = dict_set ''version'' (PStr (version self)) context1;
          context_data = json_dumps lib (PDict context2);
          data_size = length context_data
      in if data_size > compression_threshold self
         then
           let compressed_data = zlib_compress lib (str_encode lib context_data);
               compression_ratio = (of_nat (bytes_len compressed_data) :: rat) / of_nat data_size
           in if compression_ratio < 0.9
              then (case bytes_decode lib compressed_data of
                      None \<Rightarrow> Inl UnicodeDecodeError
                    | Some s \<Rightarrow> Inr (''compressed:'' @ s))
              else Inr context_data
         else Inr context_data)"

text \<open>
  \<^verbatim>\<open>update_context\<close>: no look at the circuit breaker before the write. The two stamps
  are also written into the caller's dictionary, which no caller reads afterwards.
\<close>

definition update_context ::
    "pylib \<Rightarrow> datetime \<Rightarrow> uuid \<Rightarrow> pyval \<Rightarrow> ContextService \<times> Redis \<Rightarrow> (error + bool) \<times> ContextService \<times> Redis" where
  "update_context lib now conv_id context sr =
     (let self = fst sr; r = snd sr;
          key = context_key self conv_id
      in case context of
           PDict d \<Rightarrow>
             (case stored_text lib now self d of
                Inl e \<Rightarrow> (Inl e, self, r)
              | Inr context_data \<Rightarrow>
                  (case redis_setex r key (context_ttl self) context_data of
                     (Inl e, r') \<Rightarrow>
                       (Inl RedisError,
                        self\<lparr>circuit_breaker := record_failure now (circuit_breaker self)\<rparr>, r')
                   | (Inr success, r') \<Rightarrow> (Inr success, self, r')))
         | _ \<Rightarrow> (Inl ValueError, self, r))"

text \<open>\<^verbatim>\<open>clear_context\<close>.\<close>

definition clear_context ::
    "datetime \<Rightarrow> uuid \<Rightarrow> ContextService \<times> Redis \<Rightarrow> (error + bool) \<times> ContextService \<times> Redis" where
  "clear_context now conv_id sr =
     (let self = fst sr; r = snd sr;
          key = context_key self conv_id
      in case redis_delete r key of
           (Inl e, r') \<Rightarrow>
             (Inl RedisError, self\<lparr>circuit_breaker := record_failure now (circuit_breaker self)\<rparr>, r')
         | (Inr success, r') \<Rightarrow> (Inr (success \<noteq> 0), self, r'))"

text \<open>
  \<^verbatim>\<open>build_context\<close>. \<^verbatim>\<open>conversation.messages[-10:]\<close> is the last ten messages, or all of
  them when there are fewer. \<open>now\<close> is the clock reading that becomes \<^verbatim>\<open>created_at\<close>.
\<close>

definition message_summary :: "pylib \<Rightarrow> Message \<Rightarrow> pyval" where
  "message_summary lib msg =
     PDict [(''content'', PStr (content msg)),
            (''direction'', PStr (MessageDirection_value (direction msg))),
            (''created_at'', PStr (isoformat lib (m_created_at msg))),
            (''ai_confidence'', PNum (ai_confidence msg))]"

definition intent_summary :: "Intent \<Rightarrow> pyval" where
  "intent_summary i =
     PDict [(''type'', PStr (IntentType_value (itype i))), (''confidence'', PNum (confidence i))]"

definition build_context :: "pylib \<Rightarrow> datetime \<Rightarrow> Conversation \<Rightarrow> pyval" where
  "build_context lib now conversation =
     (let metadata0 =
            [(''lead_id'', PStr (lead_id conversation)),
             (''status'', PStr (ConversationStatus_value (status conversation))),
             (''ai_confidence_avg'', PNum (ai_confidence_avg conversation)),
             (''message_count'', PNum (of_nat (length (messages conversation))))];
          metadata1 =
            (case current_intent conversation of
               None \<Rightarrow> metadata0
             | Some i \<Rightarrow> dict_set ''current_intent'' (intent_summary i) metadata0)
      in PDict [(''messages'',
                 PList (map (message_summary lib)
                          (drop (length (messages conversation) - 10) (messages conversation)))),
                (''metadata'', PDict metadata1),
                (''created_at'', PStr (isoformat lib now))])"

text \<open>\<^verbatim>\<open>context['metadata'][k]\<close>, to read a built context.\<close>

definition context_metadata :: "pyval \<Rightarrow> string \<Rightarrow> error + pyval" where
  "context_metadata context k =
     (case subscript context ''metadata'' of Inl e \<Rightarrow> Inl e | Inr md \<Rightarrow> subscript md k)"

section \<open>The language-model service\<close>

text \<open>
  A call of the chat completion API: what the prompt is built from. The provider is a
  function from the request to the text of the first choice, or to the exception the call
  raises. The service state of the model is the list of the requests made so far.
\<close>

datatype llm_request =
    Classification string pyval
  | Generation string string pyval

type_synonym llm = "llm_request \<Rightarrow> error + string"

text \<open>The intent returned when the model output does not parse.\<close>

definition fallback_intent :: Intent where
  "fallback_intent = \<lparr>itype = UNKNOWN, confidence = 0.0, requires_human = True, metadata = []\<rparr>"

text \<open>
  \<^verbatim>\<open>classify_intent\<close>. The inner handler catches \<^verbatim>\<open>json.JSONDecodeError\<close> and
  \<^verbatim>\<open>KeyError\<close>; the outer one re-raises. \<^verbatim>\<open>result['type']\<close> is evaluated first, then
  \<^verbatim>\<open>result['confidence']\<close>, then \<^verbatim>\<open>result['requires_human']\<close>, then the constructor
  runs.
\<close>

definition classify_intent ::
    "pylib \<Rightarrow> llm \<Rightarrow> string \<Rightarrow> pyval \<Rightarrow> llm_request list \<Rightarrow> (error + Intent) \<times> llm_request list" where
  "classify_intent lib provider message_content context calls =
     (case subscript context ''messages'' of
        Inl e \<Rightarrow> (Inl e, calls)
      | Inr ms \<Rightarrow>
          (case last_five ms of
             Inl e \<Rightarrow> (Inl e, calls)
           | Inr recent \<Rightarrow>
               let request = Classification message_content recent;
                   calls1 = calls @ [request]
               in (case provider request of
                     Inl e \<Rightarrow> (Inl e, calls1)
                   | Inr text \<Rightarrow>
                       (case json_loads lib text of
                          None \<Rightarrow> (Inr fallback_intent, calls1)
                        | Some result \<Rightarrow>
                            (case subscript result ''type'' of
                               Inl e \<Rightarrow> (if e = KeyError then Inr fallback_intent else Inl e, calls1)
                             | Inr t \<Rightarrow>
                                 (case subscript result ''confidence'' of
                                    Inl e \<Rightarrow> (if e = KeyError then Inr fallback_intent else Inl e, calls1)
                                  | Inr c \<Rightarrow>
                                      (case subscript result ''requires_human'' of
                                         Inl e \<Rightarrow>
                                           (if e = KeyError then Inr fallback_intent else Inl e, calls1)
                                       | Inr r \<Rightarrow> (Intent_of_values lib t c r, calls1))))))))"

text \<open>\<^verbatim>\<open>generate_response\<close>.\<close>

definition generate_response ::
    "llm \<Rightarrow> string \<Rightarrow> Intent \<Rightarrow> pyval \<Rightarrow> llm_request list \<Rightarrow> (error + string) \<times> llm_request list" where
  "generate_response provider message_content intent' context calls =
     (case subscript context ''messages'' of
        Inl e \<Rightarrow> (Inl e, calls)
      | Inr ms \<Rightarrow>
          (case last_five ms of
             Inl e \<Rightarrow> (Inl e, calls)
           | Inr recent \<Rightarrow>
               let request = Generation message_content (IntentType_value (itype intent')) recent;
                   calls1 = calls @ [request]
               in (case provider request of
                     Inl e \<Rightarrow> (Inl e, calls1)
                   | Inr text \<Rightarrow>
                       let response_text = strip text
                       in if response_text = [] then (Inl ValueError, calls1)
                          else (Inr response_text, calls1))))"

text \<open>
  The condition of line 144, \<^verbatim>\<open>intent.confidence >= 0.7 and not intent.should_handoff()\<close>:
  \<^verbatim>\<open>and\<close> does not evaluate its right operand when the left one is false. The method
  is the one of \<^verbatim>\<open>models/conversation.py\<close>, from where the service imports \<^verbatim>\<open>Intent\<close>.
\<close>

definition may_respond :: "Intent \<Rightarrow> error + bool" where
  "may_respond intent' =
     (if confidence intent' \<ge> 0.7
      then (case should_handoff_conversation_py intent' of Inl e \<Rightarrow> Inl e | Inr h \<Rightarrow> Inr (\<not> h))
      else Inr False)"

text \<open>
  The two constructor calls of lines 152 and 161 differ in the content only: both pass
  \<^verbatim>\<open>conversation_id\<close>, \<^verbatim>\<open>content\<close>, \<^verbatim>\<open>direction\<close>, \<^verbatim>\<open>ai_confidence\<close> and \<^verbatim>\<open>intent\<close>,
  and neither passes \<^verbatim>\<open>id\<close>.
\<close>

definition response_message :: "datetime \<Rightarrow> Conversation \<Rightarrow> string \<Rightarrow> Intent \<Rightarrow> error + Message" where
  "response_message now conversation text intent' =
     Message_init now
       \<lparr>d_id = None, d_conversation_id = Some (c_id conversation), d_content = Some text,
        d_direction = Some OUTBOUND, d_ai_confidence = Some (confidence intent'),
        d_intent = Some intent'\<rparr>"

definition handoff_text :: string where
  "handoff_text = ''Connecting you with a human agent...''"

text \<open>\<^verbatim>\<open>context['messages'].append(x)\<close>.\<close>

definition append_to_messages :: "pyval \<Rightarrow> pyval \<Rightarrow> error + pyval" where
  "append_to_messages context x =
     (case context of
        PDict d \<Rightarrow>
          (case dict_get d ''messages'' of
             None \<Rightarrow> Inl KeyError
           | Some (PList l) \<Rightarrow> Inr (PDict (dict_set ''messages'' (PList (l @ [x])) d))
           | Some _ \<Rightarrow> Inl AttributeError)
      | _ \<Rightarrow> Inl TypeError)"

text \<open>
  The state \<^verbatim>\<open>process_message\<close> works on: the context service, the Redis server and
  the requests made to the provider.
\<close>

record world =
  service :: ContextService
  redis :: Redis
  llm_calls :: "llm_request list"

text \<open>
  Lines 169 to 174 of \<^verbatim>\<open>process_message\<close>, once the response message exists: both
  messages are appended to the context, which is written back.
\<close>

definition store_exchange ::
    "pylib \<Rightarrow> datetime \<Rightarrow> Conversation \<Rightarrow> pyval \<Rightarrow> Intent \<Rightarrow> Message \<Rightarrow> Message \<Rightarrow> world
       \<Rightarrow> (error + Message \<times> Intent) \<times> world" where
  "store_exchange lib now conversation context intent' message response w =
     (case append_to_messages context (Message_to_dict lib message) of
        Inl e \<Rightarrow> (Inl e, w)
      | Inr context1 \<Rightarrow>
          (case append_to_messages context1 (Message_to_dict lib response) of
             Inl e \<Rightarrow> (Inl e, w)
           | Inr context2 \<Rightarrow>
               (case update_context lib now (c_id conversation) context2 (service w, redis w) of
                  (Inl e, s', r') \<Rightarrow> (Inl e, w\<lparr>service := s', redis := r'\<rparr>)
                | (Inr ok, s', r') \<Rightarrow> (Inr (response, intent'), w\<lparr>service := s', redis := r'\<rparr>))))"

text \<open>
  \<^verbatim>\<open>process_message\<close>, one attempt (the retry decorator runs it again after an APIError).
  Both handlers re-raise, so every exception leaves the call as it is. The result is what
  the call returns or raises, the inbound message as the call leaves it (its \<^verbatim>\<open>intent\<close>
  is set after the classification), and the state.
\<close>

definition process_message ::
    "pylib \<Rightarrow> llm \<Rightarrow> datetime \<Rightarrow> Message \<Rightarrow> Conversation \<Rightarrow> world
       \<Rightarrow> (error + Message \<times> Intent) \<times> Message \<times> world" where
  "process_message lib provider now message conversation w =
     (case get_conversation_context lib now (c_id conversation) (service w, redis w) of
        (Inl e, s', r') \<Rightarrow> (Inl e, message, w\<lparr>service := s', redis := r'\<rparr>)
      | (Inr context, s', r') \<Rightarrow>
          let w1 = w\<lparr>service := s', redis := r'\<rparr>
          in (case classify_intent lib provider (content message) context (llm_calls w1) of
                (Inl e, calls1) \<Rightarrow> (Inl e, message, w1\<lparr>llm_calls := calls1\<rparr>)
              | (Inr intent', calls1) \<Rightarrow>
                  let message1 = message\<lparr>intent := Some intent'\<rparr>;
                      w2 = w1\<lparr>llm_calls := calls1\<rparr>
                  in (case may_respond intent' of
                        Inl e \<Rightarrow> (Inl e, message1, w2)
                      | Inr True \<Rightarrow>
                          (case generate_response provider (content message1) intent' context
                                  (llm_calls w2) of
                             (Inl e, calls2) \<Rightarrow> (Inl e, message1, w2\<lparr>llm_calls := calls2\<rparr>)
                           | (Inr response_text, calls2) \<Rightarrow>
                               let w3 = w2\<lparr>llm_calls := calls2\<rparr>
                               in (case response_message now conversation response_text intent' of
                                     Inl e \<Rightarrow> (Inl e, message1, w3)
                                   | Inr response \<Rightarrow>
                                       (case store_exchange lib now conversation context intent'
                                               message1 response w3 of
                                          (result, w4) \<Rightarrow> (result, message1, w4))))
                      | Inr False \<Rightarrow>
                          (case response_message now conversation handoff_text intent' of
                             Inl e \<Rightarrow> (Inl e, message1, w2)
                           | Inr response \<Rightarrow>
                               (case store_exchange lib now conversation context intent'
                                       message1 response w2 of
                                  (result, w4) \<Rightarrow> (result, message1, w4))))))"

section \<open>Example values\<close>

text \<open>A new conversation, as \<^verbatim>\<open>Conversation(id=..., lead_id=...)\<close> builds it at time 0.\<close>

definition new_conversation :: "uuid \<Rightarrow> uuid \<Rightarrow> Conversation" where
  "new_conversation i l =
     \<lparr>c_id = i, lead_id = l, status = ACTIVE, messages = [], current_intent = None,
      human_agent_id = None, ai_confidence_avg = 1.0, c_metadata = [],
      c_created_at = 0, c_updated_at = 0\<rparr>"

text \<open>An inbound message without intent.\<close>

definition plain_message :: "uuid \<Rightarrow> uuid \<Rightarrow> string \<Rightarrow> rat \<Rightarrow> Message" where
  "plain_message i cid text conf =
     \<lparr>m_id = i, conversation_id = cid, content = text, direction = INBOUND,
      ai_confidence = conf, intent = None, m_metadata = [],
      m_created_at = 0, m_updated_at = 0\<rparr>"

text \<open>Three appends to one conversation, at times 10, 20 and 30.\<close>

definition three_calls :: "(datetime \<times> Message) list" where
  "three_calls =
     [(10, plain_message ''m1'' ''c'' ''hello'' 0.9),
      (20, plain_message ''m2'' ''c'' ''prices?'' 0.6),
      (30, plain_message ''m3'' ''c'' ''bye'' 0.3)]"

text \<open>
  Three appends of messages whose confidence is the float 0.7, that is
  \<open>3152519739159347 / 2 ^ 52\<close>.
\<close>

definition equal_calls :: "(datetime \<times> Message) list" where
  "equal_calls =
     [(10, plain_message ''m1'' ''c'' ''hello'' (3152519739159347 / 4503599627370496)),
      (20, plain_message ''m2'' ''c'' ''prices?'' (3152519739159347 / 4503599627370496)),
      (30, plain_message ''m3'' ''c'' ''bye'' (3152519739159347 / 4503599627370496))]"

text \<open>Two replies of the classifier, as the prompt asks for them.\<close>

definition human_reply :: string where
  \<open>human_reply = ''{"type": "request_human", "confidence": 0.9, "requires_human": true}''\<close>

definition greeting_reply :: string where
  \<open>greeting_reply = ''{"type": "greeting", "confidence": 0.95, "requires_human": false}''\<close>

text \<open>
  An instance of the library functions, to evaluate the model on the examples below. The
  examples depend on these facts only, all true of the real functions: \<^verbatim>\<open>{}\<close> and \<^verbatim>\<open>[]\<close>
  parse as the empty JSON object and array, and the two replies above as the objects they
  spell; the empty text and the text \<^verbatim>\<open>not json\<close> are no JSON; the time 0 is written
  \<^verbatim>\<open>1970-01-01T00:00:00\<close>; a small dictionary serialises to a text of at most 1024
  characters; pydantic accepts the names of the enumeration, numbers and booleans for the
  fields of an intent. No general statement depends on the instance.
\<close>

definition sample_lib :: pylib where
  "sample_lib =
     \<lparr>isoformat = (\<lambda>t. ''1970-01-01T00:00:00''),
      json_dumps = (\<lambda>v. ''{}''),
      json_loads = (\<lambda>s. if s = ''{}'' then Some (PDict [])
                          else if s = ''[]'' then Some (PList [])
                          else if s = human_reply
                          then Some (PDict [(''type'', PStr ''request_human''),
                                            (''confidence'', PNum 0.9),
                                            (''requires_human'', PBool True)])
                          else if s = greeting_reply
                          then Some (PDict [(''type'', PStr ''greeting''),
                                            (''confidence'', PNum 0.95),
                                            (''requires_human'', PBool False)])
                          else None),
      str_encode = Bytes,
      bytes_decode = (\<lambda>b. case b of Bytes s \<Rightarrow> Some s),
      zlib_compress = (\<lambda>b. b),
      zlib_decompress = (\<lambda>b. None),
      as_IntentType = (\<lambda>v. case v of
                           PStr s \<Rightarrow>
                             (if s = ''greeting'' then Some GREETING
                              else if s = ''question'' then Some QUESTION
                              else if s = ''complaint'' then Some COMPLAINT
                              else if s = ''request_human'' then Some REQUEST_HUMAN
                              else if s = ''farewell'' then Some FAREWELL
                              else if s = ''unknown'' then Some UNKNOWN
                              else None)
                         | _ \<Rightarrow> None),
      as_float = (\<lambda>v. case v of PNum x \<Rightarrow> Some x | _ \<Rightarrow> None),
      as_bool = (\<lambda>v. case v of PBool b \<Rightarrow> Some b | _ \<Rightarrow> None)\<rparr>"

text \<open>
  The same instance with a clock format that tells the time 1000000, one second after
  the time 0, from the time 0.
\<close>

definition ticking_lib :: pylib where
  "ticking_lib =
     sample_lib\<lparr>isoformat := (\<lambda>t. if t = 1000000 then ''1970-01-01T00:00:01''
                                    else ''1970-01-01T00:00:00'')\<rparr>"

text \<open>
  The same instance with a codec that frames the data with one header byte, the letter x
  (the first byte of zlib output), and decodes what carries that header: decompression
  inverts compression, and rejects every other first byte.
\<close>

definition framing_lib :: pylib where
  "framing_lib =
     sample_lib\<lparr>zlib_compress := (\<lambda>b. case b of Bytes s \<Rightarrow> Bytes (CHR ''x'' # s)),
                zlib_decompress := (\<lambda>b. case b of
                                          Bytes [] \<Rightarrow> None
                                        | Bytes (c # s) \<Rightarrow> if c = CHR ''x'' then Some (Bytes s) else None)\<rparr>"

text \<open>
  The arguments of \<^verbatim>\<open>Intent(type=QUESTION, confidence=0.85, metadata={...})\<close> with a
  caller's own values under the two keys the constructor writes.
\<close>

definition conflicting_data :: Intent_data where
  "conflicting_data =
     \<lparr>d_type = Some QUESTION, d_confidence = Some 0.85, d_requires_human = None,
      d_metadata = Some (PDict [(''model_version'', PStr ''0.1''),
                                (''source'', PStr ''test''),
                                (''created_at'', PStr ''yesterday'')])\<rparr>"

text \<open>
  Two intents for the handoff rule: a complaint classified with confidence 0.85, and a
  question classified with confidence 0.95 whose metadata marks it urgent.
\<close>

definition unsure_complaint :: Intent where
  "unsure_complaint = \<lparr>itype = COMPLAINT, confidence = 0.85, requires_human = False, metadata = []\<rparr>"

definition urgent_question :: Intent where
  "urgent_question =
     \<lparr>itype = QUESTION, confidence = 0.95, requires_human = False,
      metadata = [(''urgent'', PBool True)]\<rparr>"

text \<open>
  A provider that classifies every message with the given reply and answers every
  generation request with a greeting; and an inbound message of conversation \<open>c\<close>.
\<close>

definition replying :: "string \<Rightarrow> llm" where
  "replying reply request =
     (case request of
        Classification m recent \<Rightarrow> Inr reply
      | Generation m t recent \<Rightarrow> Inr ''Hello, how can I help?'')"

definition inbound_message :: Message where
  "inbound_message = plain_message ''m1'' ''c'' ''I need help'' 1.0"

text \<open>
  A service as the constructor leaves it, with one hour as time to live; the same service
  after \<open>n\<close> recorded failures, the last at time \<open>t\<close>; a server that answers and
  holds the given entries; and a server without entries that has received \<open>n\<close>
  commands.
\<close>

definition sample_service :: ContextService where
  "sample_service = ContextService_init 3600"

definition failed_service :: "nat \<Rightarrow> datetime \<Rightarrow> ContextService" where
  "failed_service n t =
     sample_service\<lparr>circuit_breaker :=
       (circuit_breaker sample_service)\<lparr>failures := n, last_failure := Some t\<rparr>\<rparr>"

definition redis_holding :: "(string \<times> string) list \<Rightarrow> Redis" where
  "redis_holding kvs =
     \<lparr>entries = map_of (map (\<lambda>kv. (fst kv, (3600, snd kv))) kvs), reachable = True, commands = 0\<rparr>"

definition redis_state :: "bool \<Rightarrow> nat \<Rightarrow> Redis" where
  "redis_state up n = \<lparr>entries = Map.empty, reachable = up, commands = n\<rparr>"

text \<open>The state before any call: nothing cached, no failure, no request made.\<close>

definition fresh_world :: world where
  "fresh_world = \<lparr>service = sample_service, redis = redis_state True 0, llm_calls = []\<rparr>"

text \<open>
  Six reads of one conversation, one second apart; the server fails to answer the first,
  the third and the fifth.
\<close>

definition alternating_reads :: "(datetime \<times> bool) list" where
  "alternating_reads =
     [(0, False), (1000000, True), (2000000, False), (3000000, True), (4000000, False),
      (5000000, True)]"

section \<open>Dictionaries\<close>

lemma dict_get_dict_set:
  "dict_get (dict_set k v d) k' = (if k' = k then Some v else dict_get d k')"
  by (induction d) (auto simp: dict_get_def)

lemma dict_set_not_empty: "dict_set k v d \<noteq> []"
  by (cases d) auto

section \<open>The two handoff rules\<close>

lemma should_handoff_rules:
  assumes "0 \<le> t" and "t \<le> 1"
  shows "should_handoff i t
           = Inr (requires_human i \<or> confidence i < t \<or> itype i = REQUEST_HUMAN
                  \<or> (itype i = COMPLAINT \<and> confidence i < 0.9))"
  using assms by (simp add: should_handoff_def)

lemma should_handoff_conversation_py_no_metadata:
  assumes "metadata i = []"
  shows "should_handoff_conversation_py i
           = Inr (requires_human i \<or> confidence i < 0.7 \<or> itype i = REQUEST_HUMAN)"
  using assms
  by (simp add: should_handoff_conversation_py_def DEFAULT_HANDOFF_THRESHOLD_def dict_get_def)

text \<open>
  C1. The two methods do not compute the rule of the specification. For a complaint
  classified with confidence 0.85 the rule and the method of \<^verbatim>\<open>models/intent.py\<close> ask
  for a handoff, the method of \<^verbatim>\<open>models/conversation.py\<close> does not. For an urgent
  question classified with confidence 0.95 the rule and the method of
  \<^verbatim>\<open>models/conversation.py\<close> ask for a handoff, the method of \<^verbatim>\<open>models/intent.py\<close> does
  not.
\<close>

theorem should_handoff_methods_differ:
  "spec_shouldHandoff unsure_complaint 0.7
   \<and> should_handoff unsure_complaint 0.7 = Inr True
   \<and> should_handoff_conversation_py unsure_complaint = Inr False
   \<and> spec_shouldHandoff urgent_question 0.7
   \<and> should_handoff urgent_question 0.7 = Inr False
   \<and> should_handoff_conversation_py urgent_question = Inr True"
  by (simp add: spec_shouldHandoff_def should_handoff_def should_handoff_conversation_py_def
                DEFAULT_HANDOFF_THRESHOLD_def unsure_complaint_def urgent_question_def dict_get_def)

section \<open>Classifier output that does not parse\<close>

lemma classify_intent_after_reply:
  assumes "subscript context ''messages'' = Inr ms"
    and "last_five ms = Inr recent"
    and "provider (Classification message_content recent) = Inr text"
  shows "classify_intent lib provider message_content context calls =
           ((case json_loads lib text of
               None \<Rightarrow> Inr fallback_intent
             | Some result \<Rightarrow>
                 (case subscript result ''type'' of
                    Inl e \<Rightarrow> (if e = KeyError then Inr fallback_intent else Inl e)
                  | Inr t \<Rightarrow>
                      (case subscript result ''confidence'' of
                         Inl e \<Rightarrow> (if e = KeyError then Inr fallback_intent else Inl e)
                       | Inr c \<Rightarrow>
                           (case subscript result ''requires_human'' of
                              Inl e \<Rightarrow> (if e = KeyError then Inr fallback_intent else Inl e)
                            | Inr r \<Rightarrow> Intent_of_values lib t c r)))),
            calls @ [Classification message_content recent])"
  using assms
  by (simp add: classify_intent_def Let_def split: option.splits sum.splits)

text \<open>The two cases the handler covers: no JSON at all, and an object without one key.\<close>

lemma classify_intent_no_json:
  assumes "subscript context ''messages'' = Inr ms"
    and "last_five ms = Inr recent"
    and "provider (Classification message_content recent) = Inr text"
    and "json_loads lib text = None"
  shows "fst (classify_intent lib provider message_content context calls) = Inr fallback_intent"
  using assms(4) by (simp add: classify_intent_after_reply [where provider = provider, OF assms(1-3)])

lemma classify_intent_missing_key:
  assumes "subscript context ''messages'' = Inr ms"
    and "last_five ms = Inr recent"
    and "provider (Classification message_content recent) = Inr text"
    and "json_loads lib text = Some (PDict d)"
    and "dict_get d ''type'' = None \<or> dict_get d ''confidence'' = None
         \<or> dict_get d ''requires_human'' = None"
  shows "fst (classify_intent lib provider message_content context calls) = Inr fallback_intent"
  using assms(4,5)
  by (auto simp: classify_intent_after_reply [where provider = provider, OF assms(1-3)] split: option.splits)

text \<open>The cases it does not cover: JSON that is no object, and values pydantic rejects.\<close>

lemma classify_intent_no_object:
  assumes "subscript context ''messages'' = Inr ms"
    and "last_five ms = Inr recent"
    and "provider (Classification message_content recent) = Inr text"
    and "json_loads lib text = Some result"
    and "\<forall>d. result \<noteq> PDict d"
  shows "fst (classify_intent lib provider message_content context calls) = Inl TypeError"
  using assms(4,5)
  by (cases result) (simp_all add: classify_intent_after_reply [where provider = provider, OF assms(1-3)])

lemma classify_intent_invalid_value:
  assumes "subscript context ''messages'' = Inr ms"
    and "last_five ms = Inr recent"
    and "provider (Classification message_content recent) = Inr text"
    and "json_loads lib text = Some (PDict d)"
    and "dict_get d ''type'' = Some t"
    and "dict_get d ''confidence'' = Some c"
    and "dict_get d ''requires_human'' = Some r"
    and "as_IntentType lib t = None \<or> as_float lib c = None \<or> as_bool lib r = None
         \<or> (\<exists>x. as_float lib c = Some x \<and> \<not> (0 \<le> x \<and> x \<le> 1))"
  shows "fst (classify_intent lib provider message_content context calls) = Inl ValidationError"
  using assms(4-8)
  by (auto simp: classify_intent_after_reply [where provider = provider, OF assms(1-3)] Intent_of_values_def
           split: option.splits)

text \<open>
  C9. A classifier reply that is JSON but no object, here the empty array \<^verbatim>\<open>[]\<close>, does
  not parse into the expected structure; \<open>classify_intent\<close> raises TypeError on it
  instead of returning the fallback intent.
\<close>

theorem classify_intent_array_reply:
  "classify_intent sample_lib (\<lambda>request. Inr ''[]'') ''hello'' (empty_context sample_lib 0) []
     = (Inl TypeError, [Classification ''hello'' (PList [])])"
  by (simp add: classify_intent_def empty_context_def sample_lib_def human_reply_def greeting_reply_def dict_get_def Let_def)

section \<open>The response decision\<close>

lemma response_message_fails:
  "response_message now conversation text intent' = Inl ValidationError"
  by (simp add: response_message_def Message_init_def)

lemma may_respond_iff:
  "may_respond i = Inr True
     \<longleftrightarrow> confidence i \<ge> 0.7 \<and> should_handoff_conversation_py i = Inr False"
  by (auto simp: may_respond_def split: sum.splits)

text \<open>
  The rule met here is the one of \<^verbatim>\<open>models/conversation.py\<close>, without the complaint
  rule: for a complaint with confidence 0.85 the condition holds, and the response is
  generated.
\<close>

lemma may_respond_complaint:
  "may_respond unsure_complaint = Inr True \<and> spec_shouldHandoff unsure_complaint 0.7"
  by (simp add: may_respond_def spec_shouldHandoff_def should_handoff_conversation_py_def
                DEFAULT_HANDOFF_THRESHOLD_def unsure_complaint_def dict_get_def)

text \<open>
  Which branch runs is as the decision rule says: on the handoff branch the provider gets
  no request beyond the classification, on the other branch it gets one generation
  request. Both branches then fail in the constructor of the response message.
\<close>

lemma process_message_handoff_branch:
  assumes "get_conversation_context lib now (c_id conversation) (service w, redis w)
             = (Inr context, s', r')"
    and "classify_intent lib provider (content message) context (llm_calls w) = (Inr i, calls1)"
    and "may_respond i = Inr False"
  shows "process_message lib provider now message conversation w
           = (Inl ValidationError, message\<lparr>intent := Some i\<rparr>,
              w\<lparr>service := s', redis := r', llm_calls := calls1\<rparr>)"
  using assms by (simp add: process_message_def Let_def response_message_fails)

lemma process_message_generation_branch:
  assumes "get_conversation_context lib now (c_id conversation) (service w, redis w)
             = (Inr context, s', r')"
    and "classify_intent lib provider (content message) context (llm_calls w) = (Inr i, calls1)"
    and "may_respond i = Inr True"
    and "generate_response provider (content message) i context calls1 = (Inr text, calls2)"
  shows "process_message lib provider now message conversation w
           = (Inl ValidationError, message\<lparr>intent := Some i\<rparr>,
              w\<lparr>service := s', redis := r', llm_calls := calls2\<rparr>)"
  using assms by (simp add: process_message_def Let_def response_message_fails)

text \<open>
  The two examples of the specification. A request for a human, classified with
  confidence 0.9, takes the handoff branch: one classification request, no generation
  request. A greeting classified with confidence 0.95 takes the generation branch. Both
  calls raise ValidationError.
\<close>

lemma fresh_world_get:
  "get_conversation_context sample_lib 0 ''c'' (service fresh_world, redis fresh_world)
     = (Inr (empty_context sample_lib 0), sample_service, redis_state True 1)"
  by (simp add: fresh_world_def get_conversation_context_def is_circuit_open_def redis_get_def
                read_raw_data_def Let_def sample_service_def ContextService_init_def
                redis_state_def)

lemma fresh_world_classify_human:
  "classify_intent sample_lib (replying human_reply) ''I need help'' (empty_context sample_lib 0) []
     = (Inr \<lparr>itype = REQUEST_HUMAN, confidence = 0.9, requires_human = True, metadata = []\<rparr>,
        [Classification ''I need help'' (PList [])])"
  by (simp add: classify_intent_def empty_context_def dict_get_def replying_def Let_def
                Intent_of_values_def sample_lib_def human_reply_def greeting_reply_def)

lemma fresh_world_classify_greeting:
  "classify_intent sample_lib (replying greeting_reply) ''I need help'' (empty_context sample_lib 0) []
     = (Inr \<lparr>itype = GREETING, confidence = 0.95, requires_human = False, metadata = []\<rparr>,
        [Classification ''I need help'' (PList [])])"
  by (simp add: classify_intent_def empty_context_def dict_get_def replying_def Let_def
                Intent_of_values_def sample_lib_def human_reply_def greeting_reply_def)

lemma process_message_human_example:
  "process_message sample_lib (replying human_reply) 0 inbound_message
       (new_conversation ''c'' ''l'') fresh_world
     = (Inl ValidationError,
        inbound_message\<lparr>intent :=
          Some \<lparr>itype = REQUEST_HUMAN, confidence = 0.9, requires_human = True, metadata = []\<rparr>\<rparr>,
        fresh_world\<lparr>service := sample_service, redis := redis_state True 1,
                    llm_calls := [Classification ''I need help'' (PList [])]\<rparr>)"
proof -
  have g: "get_conversation_context sample_lib 0 (c_id (new_conversation ''c'' ''l''))
             (service fresh_world, redis fresh_world)
           = (Inr (empty_context sample_lib 0), sample_service, redis_state True 1)"
    by (simp add: new_conversation_def fresh_world_get)
  have c: "classify_intent sample_lib (replying human_reply) (content inbound_message)
             (empty_context sample_lib 0) (llm_calls fresh_world)
           = (Inr \<lparr>itype = REQUEST_HUMAN, confidence = 0.9, requires_human = True, metadata = []\<rparr>,
              [Classification ''I need help'' (PList [])])"
    by (simp add: inbound_message_def plain_message_def fresh_world_def fresh_world_classify_human)
  have m: "may_respond \<lparr>itype = REQUEST_HUMAN, confidence = 0.9, requires_human = True, metadata = []\<rparr>
             = Inr False"
    by (simp add: may_respond_def should_handoff_conversation_py_def)
  show ?thesis
    by (rule process_message_handoff_branch [OF g c m])
qed

lemma process_message_greeting_example:
  "process_message sample_lib (replying greeting_reply) 0 inbound_message
       (new_conversation ''c'' ''l'') fresh_world
     = (Inl ValidationError,
        inbound_message\<lparr>intent :=
          Some \<lparr>itype = GREETING, confidence = 0.95, requires_human = False, metadata = []\<rparr>\<rparr>,
        fresh_world\<lparr>service := sample_service, redis := redis_state True 1,
                    llm_calls := [Classification ''I need help'' (PList []),
                                  Generation ''I need help'' ''greeting'' (PList [])]\<rparr>)"
proof -
  let ?i = "\<lparr>itype = GREETING, confidence = 0.95, requires_human = False, metadata = []\<rparr>"
  have g: "get_conversation_context sample_lib 0 (c_id (new_conversation ''c'' ''l''))
             (service fresh_world, redis fresh_world)
           = (Inr (empty_context sample_lib 0), sample_service, redis_state True 1)"
    by (simp add: new_conversation_def fresh_world_get)
  have c: "classify_intent sample_lib (replying greeting_reply) (content inbound_message)
             (empty_context sample_lib 0) (llm_calls fresh_world)
           = (Inr ?i, [Classification ''I need help'' (PList [])])"
    by (simp add: inbound_message_def plain_message_def fresh_world_def fresh_world_classify_greeting)
  have m: "may_respond ?i = Inr True"
    by (simp add: may_respond_def should_handoff_conversation_py_def DEFAULT_HANDOFF_THRESHOLD_def
                  dict_get_def)
  have r: "generate_response (replying greeting_reply) (content inbound_message) ?i
             (empty_context sample_lib 0) [Classification ''I need help'' (PList [])]
           = (Inr ''Hello, how can I help?'',
              [Classification ''I need help'' (PList []),
               Generation ''I need help'' ''greeting'' (PList [])])"
    by (simp add: generate_response_def empty_context_def dict_get_def replying_def Let_def
                  strip_def is_space_def inbound_message_def plain_message_def)
  show ?thesis
    by (rule process_message_generation_branch [OF g c m r])
qed

text \<open>
  C2. \<open>process_message\<close> never returns a response: whatever the message, the
  conversation, the stored context and the replies of the provider, the call ends in an
  exception. When nothing fails before, it is the ValidationError of the response
  message, built without its required \<open>id\<close>.
\<close>

theorem process_message_never_returns:
  "isl (fst (process_message lib provider now message conversation w))"
  by (simp add: process_message_def Let_def response_message_fails
           split: prod.splits sum.splits bool.splits)

section \<open>The running confidence average\<close>

lemma add_message_ok:
  assumes "appendable self message"
  shows "fst (add_message rnd now message self) = Inr ()"
  using assms
  by (auto simp: add_message_def appendable_def Let_def split: option.splits sum.splits bool.splits)

lemma add_message_frame:
  assumes "fst (add_message rnd now message self) = Inr ()"
  shows "c_id (snd (add_message rnd now message self)) = c_id self"
    and "messages (snd (add_message rnd now message self)) = messages self @ [message]"
    and "ai_confidence_avg (snd (add_message rnd now message self))
           = rnd (rnd (rnd (ai_confidence_avg self * rnd (of_nat (length (messages self))))
                       + ai_confidence message)
                  / rnd (of_nat (Suc (length (messages self)))))"
  using assms
  by (auto simp: add_message_def Let_def split: option.splits sum.splits bool.splits if_splits)

lemma appendable_same_id: "c_id self' = c_id self \<Longrightarrow> appendable self' m = appendable self m"
  by (simp add: appendable_def)

text \<open>A run of appends of messages that can be appended succeeds, whatever the rounding.\<close>

lemma add_messages_appended:
  assumes "\<forall>tm \<in> set calls. appendable self (snd tm)"
  shows "fst (add_messages rnd calls self) = Inr ()
       \<and> c_id (snd (add_messages rnd calls self)) = c_id self
       \<and> messages (snd (add_messages rnd calls self)) = messages self @ map snd calls"
  using assms
proof (induction calls arbitrary: self)
  case Nil
  then show ?case by simp
next
  case (Cons tm calls)
  let ?r = "add_message rnd (fst tm) (snd tm) self"
  have ok: "fst ?r = Inr ()"
    using Cons.prems by (simp add: add_message_ok)
  note fr = add_message_frame [OF ok]
  have "\<forall>x \<in> set calls. appendable (snd ?r) (snd x)"
    using Cons.prems appendable_same_id [OF fr(1)] by simp
  from Cons.IH [OF this] have ih:
    "fst (add_messages rnd calls (snd ?r)) = Inr ()"
    "c_id (snd (add_messages rnd calls (snd ?r))) = c_id self"
    "messages (snd (add_messages rnd calls (snd ?r))) = messages self @ snd tm # map snd calls"
    using fr(1) fr(2) by simp_all
  have step: "add_messages rnd (tm # calls) self = add_messages rnd calls (snd ?r)"
    using ok by (cases ?r) (auto split: sum.splits)
  show ?case
    unfolding step using ih by simp
qed

text \<open>
  One step of the running mean under a rounding of relative error \<open>u\<close> (absolute error
  \<open>u * \<tau>\<close> on the numbers below \<open>\<tau>\<close>): if the count times the average is within \<open>d\<close> of
  the sum \<open>S\<close> of the confidences so far, then after the step it is within
  \<open>(1 + u)\<^sup>3 * d + (j + 1) * ((1 + u)\<^sup>3 - 1)\<close> of the new sum.
\<close>

lemma three_roundings: "(u::rat) + u * (1 + u) + u * (1 + u)^2 = (1 + u)^3 - 1"
  by (simp add: power3_eq_cube power2_eq_square algebra_simps)

lemma rounded_step:
  fixes rnd :: "rat \<Rightarrow> rat" and a S c d u \<tau> \<Omega> :: rat and j :: nat
  assumes u: "0 \<le> u" and tau: "\<tau> \<le> 1"
    and R: "\<And>x. \<bar>x\<bar> \<le> \<Omega> \<Longrightarrow> \<bar>rnd x - x\<bar> \<le> u * max \<bar>x\<bar> \<tau>"
    and inv: "\<bar>of_nat j * a - S\<bar> \<le> d" and S: "0 \<le> S" "S \<le> of_nat j"
    and c: "0 \<le> c" "c \<le> 1"
    and Om: "(1 + u)^2 * (of_nat (Suc j) + d) \<le> \<Omega>"
  shows "\<bar>of_nat (Suc j) * rnd (rnd (rnd (a * of_nat j) + c) / of_nat (Suc j)) - (S + c)\<bar>
           \<le> (1 + u)^3 * d + of_nat (Suc j) * ((1 + u)^3 - 1)"
proof -
  define k :: rat where "k = of_nat (Suc j)"
  define T where "T = k + d"
  have k1: "1 \<le> k" by (simp add: k_def)
  have d0: "0 \<le> d" using inv by linarith
  have T1: "1 \<le> T" using k1 d0 by (simp add: T_def)
  have jk: "of_nat j + 1 = k" by (simp add: k_def)
  have TT: "T \<le> (1 + u) * T" using u T1 by (simp add: algebra_simps)
  have TT2: "(1 + u) * T \<le> (1 + u)^2 * T"
    using u T1 by (simp add: power2_eq_square algebra_simps)
  have OmT: "(1 + u)^2 * T \<le> \<Omega>" using Om by (simp add: T_def k_def)
  define x1 where "x1 = a * of_nat j"
  have x1S: "\<bar>x1 - S\<bar> \<le> d" using inv by (simp add: x1_def mult.commute)
  have ax1: "\<bar>x1\<bar> \<le> T" using x1S S jk unfolding T_def by linarith
  define e1 where "e1 = rnd x1 - x1"
  have "\<bar>e1\<bar> \<le> u * max \<bar>x1\<bar> \<tau>"
    unfolding e1_def using ax1 TT TT2 OmT by (intro R) linarith
  also have "\<dots> \<le> u * T"
  proof (intro mult_left_mono u)
    show "max \<bar>x1\<bar> \<tau> \<le> T" using ax1 tau T1 by linarith
  qed
  finally have e1: "\<bar>e1\<bar> \<le> u * T" .
  define x2 where "x2 = rnd x1 + c"
  have x2eq: "x2 = x1 + e1 + c" by (simp add: x2_def e1_def)
  have ax2: "\<bar>x2\<bar> \<le> (1 + u) * T"
    using x1S S c e1 jk unfolding x2eq T_def by (simp add: algebra_simps)
  define e2 where "e2 = rnd x2 - x2"
  have "\<bar>e2\<bar> \<le> u * max \<bar>x2\<bar> \<tau>"
    unfolding e2_def using ax2 TT2 OmT by (intro R) linarith
  also have "\<dots> \<le> u * ((1 + u) * T)"
  proof (intro mult_left_mono u)
    show "max \<bar>x2\<bar> \<tau> \<le> (1 + u) * T" using ax2 tau T1 TT by linarith
  qed
  finally have e2: "\<bar>e2\<bar> \<le> u * ((1 + u) * T)" .
  define s where "s = rnd x2"
  have seq: "s = x2 + e2" by (simp add: s_def e2_def)
  have "\<bar>s\<bar> \<le> (1 + u) * T + u * ((1 + u) * T)"
    using ax2 e2 unfolding seq by linarith
  also have "\<dots> = (1 + u)^2 * T" by (simp add: power2_eq_square algebra_simps)
  finally have as: "\<bar>s\<bar> \<le> (1 + u)^2 * T" .
  define x3 where "x3 = s / k"
  have kx3: "k * \<bar>x3\<bar> = \<bar>s\<bar>" using k1 by (simp add: x3_def)
  have "\<bar>x3\<bar> \<le> k * \<bar>x3\<bar>" using k1 by (simp add: mult_le_cancel_right1)
  then have ax3: "\<bar>x3\<bar> \<le> (1 + u)^2 * T" using kx3 as by linarith
  define e3 where "e3 = rnd x3 - x3"
  have e3a: "\<bar>e3\<bar> \<le> u * max \<bar>x3\<bar> \<tau>"
    unfolding e3_def using ax3 OmT by (intro R) linarith
  have kmax: "k * max \<bar>x3\<bar> \<tau> \<le> (1 + u)^2 * T"
  proof -
    have "k * \<tau> \<le> k" using k1 tau by (simp add: mult_le_cancel_left1)
    also have "k \<le> T" using d0 by (simp add: T_def)
    finally have B: "k * \<tau> \<le> (1 + u)^2 * T" using TT TT2 by linarith
    have A: "k * \<bar>x3\<bar> \<le> (1 + u)^2 * T" using kx3 as by simp
    have "max \<bar>x3\<bar> \<tau> = \<bar>x3\<bar> \<or> max \<bar>x3\<bar> \<tau> = \<tau>" by (simp add: max_def)
    then show ?thesis using A B by auto
  qed
  have "k * \<bar>e3\<bar> \<le> k * (u * max \<bar>x3\<bar> \<tau>)"
    using e3a k1 by (intro mult_left_mono) auto
  also have "\<dots> = u * (k * max \<bar>x3\<bar> \<tau>)" by simp
  also have "\<dots> \<le> u * ((1 + u)^2 * T)"
    using kmax by (intro mult_left_mono u)
  finally have e3: "k * \<bar>e3\<bar> \<le> u * ((1 + u)^2 * T)" .
  have ke3: "\<bar>k * e3\<bar> = k * \<bar>e3\<bar>" using k1 by (simp add: abs_mult)
  have "k * rnd x3 = k * x3 + k * e3" by (simp add: e3_def algebra_simps)
  also have "k * x3 = s" using k1 by (simp add: x3_def)
  finally have "k * rnd x3 - (S + c) = (x1 - S) + e1 + e2 + k * e3"
    by (simp add: seq x2eq)
  then have "\<bar>k * rnd x3 - (S + c)\<bar> \<le> d + u * T + u * ((1 + u) * T) + u * ((1 + u)^2 * T)"
    using x1S e1 e2 e3 ke3 by linarith
  also have "\<dots> = d + (u + u * (1 + u) + u * (1 + u)^2) * T" by (simp add: algebra_simps)
  also have "\<dots> = d + ((1 + u)^3 - 1) * T" by (simp only: three_roundings)
  also have "\<dots> = (1 + u)^3 * d + k * ((1 + u)^3 - 1)" by (simp add: T_def algebra_simps)
  finally show ?thesis by (simp add: k_def x3_def s_def x2_def x1_def)
qed

text \<open>The bound that the steps keep, and the magnitude of what is rounded on the way.\<close>

lemma drift_step:
  fixes G :: rat
  assumes "1 \<le> G"
  shows "G * (of_nat j * (G ^ j - 1)) + of_nat (Suc j) * (G - 1) \<le> of_nat (Suc j) * (G ^ Suc j - 1)"
proof -
  have "G \<le> G ^ Suc j" using assms by (intro self_le_power) simp_all
  moreover have "of_nat (Suc j) * (G ^ Suc j - 1)
                   - (G * (of_nat j * (G ^ j - 1)) + of_nat (Suc j) * (G - 1)) = G ^ Suc j - G"
    by (simp add: algebra_simps)
  ultimately show ?thesis by linarith
qed

lemma range_step:
  fixes G u :: rat
  assumes G: "1 \<le> G" and uG: "(1 + u)^2 \<le> G" and jN: "Suc j \<le> N"
  shows "(1 + u)^2 * (of_nat (Suc j) + of_nat j * (G ^ j - 1)) \<le> of_nat N * G ^ N"
proof -
  define X :: rat where "X = of_nat (Suc j) + of_nat j * (G ^ j - 1)"
  have Gj: "1 \<le> G ^ j" using G by (rule one_le_power)
  have X0: "0 \<le> X"
    unfolding X_def using Gj by (intro add_nonneg_nonneg mult_nonneg_nonneg) simp_all
  have "X = 1 + of_nat j * G ^ j" by (simp add: X_def algebra_simps)
  also have "\<dots> \<le> G ^ j + of_nat j * G ^ j" using Gj by simp
  also have "\<dots> = of_nat (Suc j) * G ^ j" by (simp add: algebra_simps)
  finally have X1: "X \<le> of_nat (Suc j) * G ^ j" .
  have "(1 + u)^2 * X \<le> G * X" using uG X0 by (rule mult_right_mono)
  also have "\<dots> \<le> G * (of_nat (Suc j) * G ^ j)" using X1 G by (intro mult_left_mono) simp_all
  also have "\<dots> = of_nat (Suc j) * G ^ Suc j" by simp
  also have "\<dots> \<le> of_nat N * G ^ N"
  proof (intro mult_mono)
    show "(of_nat (Suc j) :: rat) \<le> of_nat N" using jN by (simp only: of_nat_le_iff)
    show "G ^ Suc j \<le> G ^ N" using jN G by (rule power_increasing)
    show "(0::rat) \<le> of_nat N" by simp
    show "0 \<le> G ^ Suc j" using G by simp
  qed
  finally show ?thesis by (simp add: X_def)
qed

text \<open>
  The invariant of a run of appends: the number of messages times the average stays
  within \<open>j * (G ^ j - 1)\<close> of the sum of the confidences, where \<open>j\<close> is the number of
  messages and \<open>G = (1 + u)\<^sup>3\<close>.
\<close>

lemma add_messages_drift:
  fixes rnd :: "rat \<Rightarrow> rat" and u \<tau> G S :: rat
  assumes u: "0 \<le> u" and tau: "\<tau> \<le> 1" and G: "G = (1 + u)^3"
    and R: "\<And>x. \<bar>x\<bar> \<le> of_nat N * G ^ N \<Longrightarrow> \<bar>rnd x - x\<bar> \<le> u * max \<bar>x\<bar> \<tau>"
    and I: "\<And>k. k \<le> N \<Longrightarrow> rnd (of_nat k) = of_nat k"
    and ok: "\<forall>tm \<in> set calls. appendable self (snd tm)
               \<and> 0 \<le> ai_confidence (snd tm) \<and> ai_confidence (snd tm) \<le> 1"
    and len: "length (messages self) + length calls \<le> N"
    and inv: "\<bar>of_nat (length (messages self)) * ai_confidence_avg self - S\<bar>
                \<le> of_nat (length (messages self)) * (G ^ length (messages self) - 1)"
    and S: "0 \<le> S" "S \<le> of_nat (length (messages self))"
  shows "fst (add_messages rnd calls self) = Inr ()
       \<and> c_id (snd (add_messages rnd calls self)) = c_id self
       \<and> messages (snd (add_messages rnd calls self)) = messages self @ map snd calls
       \<and> \<bar>of_nat (length (messages self) + length calls)
             * ai_confidence_avg (snd (add_messages rnd calls self))
           - (S + sum_list (map (\<lambda>tm. ai_confidence (snd tm)) calls))\<bar>
           \<le> of_nat (length (messages self) + length calls)
               * (G ^ (length (messages self) + length calls) - 1)"
  using ok len inv S
proof (induction calls arbitrary: self S)
  case Nil
  then show ?case by simp
next
  case (Cons tm calls)
  let ?r = "add_message rnd (fst tm) (snd tm) self"
  let ?j = "length (messages self)"
  let ?c = "ai_confidence (snd tm)"
  have G1: "1 \<le> G" unfolding G using u by (intro one_le_power) simp
  have uG: "(1 + u)^2 \<le> G" unfolding G using u by (intro power_increasing) simp_all
  have jN: "Suc ?j \<le> N" using Cons.prems(2) by simp
  have c: "0 \<le> ?c" "?c \<le> 1" using Cons.prems(1) by simp_all
  have ok: "fst ?r = Inr ()"
    using Cons.prems(1) by (simp add: add_message_ok)
  note fr = add_message_frame [OF ok]
  have avg: "ai_confidence_avg (snd ?r)
               = rnd (rnd (rnd (ai_confidence_avg self * of_nat ?j) + ?c) / of_nat (Suc ?j))"
    using jN by (simp only: fr(3) I Suc_leD)
  have "\<bar>of_nat (Suc ?j) * ai_confidence_avg (snd ?r) - (S + ?c)\<bar>
          \<le> (1 + u)^3 * (of_nat ?j * (G ^ ?j - 1)) + of_nat (Suc ?j) * ((1 + u)^3 - 1)"
    unfolding avg
    using u tau R Cons.prems(3) Cons.prems(4) Cons.prems(5) c range_step [OF G1 uG jN]
    by (rule rounded_step)
  also have "\<dots> \<le> of_nat (Suc ?j) * (G ^ Suc ?j - 1)"
    using drift_step [OF G1, of ?j] by (simp only: G)
  finally have inv': "\<bar>of_nat (length (messages (snd ?r))) * ai_confidence_avg (snd ?r) - (S + ?c)\<bar>
                        \<le> of_nat (length (messages (snd ?r))) * (G ^ length (messages (snd ?r)) - 1)"
    by (simp only: fr(2) length_append_singleton)
  have ok': "\<forall>x \<in> set calls. appendable (snd ?r) (snd x)
               \<and> 0 \<le> ai_confidence (snd x) \<and> ai_confidence (snd x) \<le> 1"
    using Cons.prems(1) appendable_same_id [OF fr(1)] by simp
  have len': "length (messages (snd ?r)) + length calls \<le> N"
    using Cons.prems(2) by (simp add: fr(2))
  have S': "0 \<le> S + ?c" "S + ?c \<le> of_nat (length (messages (snd ?r)))"
    using Cons.prems(4) Cons.prems(5) c by (simp_all add: fr(2))
  from Cons.IH [OF ok' len' inv' S'] have ih:
    "fst (add_messages rnd calls (snd ?r)) = Inr ()"
    "c_id (snd (add_messages rnd calls (snd ?r))) = c_id self"
    "messages (snd (add_messages rnd calls (snd ?r))) = messages self @ snd tm # map snd calls"
    "\<bar>of_nat (Suc ?j + length calls) * ai_confidence_avg (snd (add_messages rnd calls (snd ?r)))
       - (S + ?c + sum_list (map (\<lambda>tm. ai_confidence (snd tm)) calls))\<bar>
      \<le> of_nat (Suc ?j + length calls) * (G ^ (Suc ?j + length calls) - 1)"
    using fr(1) fr(2) by simp_all
  have step: "add_messages rnd (tm # calls) self = add_messages rnd calls (snd ?r)"
    using ok by (cases ?r) (auto split: sum.splits)
  show ?case
    unfolding step using ih by (simp add: add.assoc)
qed

text \<open>
  The running mean under any rounding of relative error at most \<open>u\<close>, of absolute error
  at most \<open>u * \<tau>\<close> on the numbers below \<open>\<tau>\<close>, that leaves the counts up to the
  number \<open>n\<close> of appends as they are: from a conversation without messages, the average
  after the appends differs from the mean of the confidences by at most
  \<open>(1 + u) ^ (3 * n) - 1\<close>, about \<open>3 * n * u\<close>; when \<open>u\<close> is 0, the two are equal. Only
  numbers of magnitude up to \<open>n * (1 + u) ^ (3 * n)\<close> are rounded on the way.
\<close>

lemma add_messages_rounded:
  fixes rnd :: "rat \<Rightarrow> rat" and u \<tau> :: rat
  assumes "messages self = []"
    and "calls \<noteq> []"
    and "\<forall>tm \<in> set calls. appendable self (snd tm)
           \<and> 0 \<le> ai_confidence (snd tm) \<and> ai_confidence (snd tm) \<le> 1"
    and "0 \<le> u" and "\<tau> \<le> 1"
    and "\<forall>x. \<bar>x\<bar> \<le> of_nat (length calls) * (1 + u) ^ (3 * length calls)
           \<longrightarrow> \<bar>rnd x - x\<bar> \<le> u * max \<bar>x\<bar> \<tau>"
    and "\<forall>k \<le> length calls. rnd (of_nat k) = of_nat k"
  shows "fst (add_messages rnd calls self) = Inr ()
       \<and> messages (snd (add_messages rnd calls self)) = map snd calls
       \<and> \<bar>ai_confidence_avg (snd (add_messages rnd calls self))
           - sum_list (map (\<lambda>tm. ai_confidence (snd tm)) calls) / of_nat (length calls)\<bar>
           \<le> (1 + u) ^ (3 * length calls) - 1
       \<and> (u = 0 \<longrightarrow>
            ai_confidence_avg (snd (add_messages rnd calls self))
              = sum_list (map (\<lambda>tm. ai_confidence (snd tm)) calls) / of_nat (length calls))"
proof -
  let ?n = "length calls"
  let ?avg = "ai_confidence_avg (snd (add_messages rnd calls self))"
  let ?sum = "sum_list (map (\<lambda>tm. ai_confidence (snd tm)) calls)"
  define G where "G = (1 + u)^3"
  have Gn: "G ^ ?n = (1 + u) ^ (3 * ?n)" by (simp add: G_def power_mult)
  have R: "\<And>x. \<bar>x\<bar> \<le> of_nat ?n * G ^ ?n \<Longrightarrow> \<bar>rnd x - x\<bar> \<le> u * max \<bar>x\<bar> \<tau>"
    using assms(6) by (simp add: Gn)
  have I: "\<And>k. k \<le> ?n \<Longrightarrow> rnd (of_nat k) = of_nat k"
    using assms(7) by simp
  have len: "length (messages self) + ?n \<le> ?n" by (simp add: assms(1))
  have inv: "\<bar>of_nat (length (messages self)) * ai_confidence_avg self - 0\<bar>
               \<le> of_nat (length (messages self)) * (G ^ length (messages self) - 1)"
    by (simp add: assms(1))
  have S: "(0::rat) \<le> 0" "(0::rat) \<le> of_nat (length (messages self))" by simp_all
  from add_messages_drift [OF assms(4) assms(5) G_def R I assms(3) len inv S] assms(1) have
    ok: "fst (add_messages rnd calls self) = Inr ()" and
    ms: "messages (snd (add_messages rnd calls self)) = map snd calls" and
    le: "\<bar>of_nat ?n * ?avg - ?sum\<bar> \<le> of_nat ?n * ((1 + u) ^ (3 * ?n) - 1)"
    by (simp_all add: Gn)
  have n0: "(0::rat) < of_nat ?n"
    using assms(2) by simp
  have "of_nat ?n * \<bar>?avg - ?sum / of_nat ?n\<bar> = \<bar>of_nat ?n * (?avg - ?sum / of_nat ?n)\<bar>"
    using n0 by (simp add: abs_mult)
  also have "of_nat ?n * (?avg - ?sum / of_nat ?n) = of_nat ?n * ?avg - ?sum"
    using n0 by (simp add: right_diff_distrib)
  finally have "of_nat ?n * \<bar>?avg - ?sum / of_nat ?n\<bar> \<le> of_nat ?n * ((1 + u) ^ (3 * ?n) - 1)"
    using le by simp
  then have bound: "\<bar>?avg - ?sum / of_nat ?n\<bar> \<le> (1 + u) ^ (3 * ?n) - 1"
    using n0 by (simp only: mult_le_cancel_left_pos)
  have exact: "u = 0 \<longrightarrow> ?avg = ?sum / of_nat ?n"
  proof
    assume "u = 0"
    with bound have "\<bar>?avg - ?sum / of_nat ?n\<bar> \<le> 0" by simp
    then show "?avg = ?sum / of_nat ?n" by simp
  qed
  from ok ms bound exact show ?thesis by (intro conjI)
qed

text \<open>The rounding of Python satisfies the conditions on \<open>rnd\<close>.\<close>

lemma nearest_even_error: "\<bar>of_int (nearest_even y) - y\<bar> \<le> 1 / 2"
proof -
  define f where "f = \<lfloor>y\<rfloor>"
  have a: "of_int f \<le> y" and b: "y < of_int f + 1"
    unfolding f_def by linarith+
  consider "y - of_int f < 1 / 2" | "1 / 2 < y - of_int f" | "y - of_int f = 1 / 2"
    by linarith
  then show ?thesis
  proof cases
    case 1
    then have "nearest_even y = f" by (simp add: nearest_even_def f_def Let_def)
    then show ?thesis using a 1 by simp
  next
    case 2
    then have "nearest_even y = f + 1" by (simp add: nearest_even_def f_def Let_def)
    then show ?thesis using b 2 by simp
  next
    case 3
    then have "nearest_even y = f \<or> nearest_even y = f + 1"
      by (simp add: nearest_even_def f_def Let_def)
    then show ?thesis using 3 by auto
  qed
qed

lemma nearest_even_of_int: "nearest_even (of_int n) = n"
  by (simp add: nearest_even_def)

lemma pow2_up_bounds: "0 < pow2_up x \<and> (1 \<le> x \<longrightarrow> pow2_up x \<le> x)"
proof (induction x rule: pow2_up.induct)
  case (1 x)
  show ?case
  proof (cases "x < 2")
    case True
    then show ?thesis by (subst pow2_up.simps, subst pow2_up.simps) simp
  next
    case False
    with 1 have "0 < pow2_up (x / 2)" and "pow2_up (x / 2) \<le> x / 2" by simp_all
    with False show ?thesis by (subst pow2_up.simps, subst pow2_up.simps) simp
  qed
qed

lemma pow2_up_power: "\<exists>e. pow2_up x = 2 ^ e"
proof (induction x rule: pow2_up.induct)
  case (1 x)
  show ?case
  proof (cases "x < 2")
    case True
    then have "pow2_up x = 2 ^ 0" by (subst pow2_up.simps) simp
    then show ?thesis by blast
  next
    case False
    with 1 obtain e where "pow2_up (x / 2) = 2 ^ e" by blast
    with False have "pow2_up x = 2 ^ Suc e" by (subst pow2_up.simps) simp
    then show ?thesis by blast
  qed
qed

lemma pow2_down_bounds: "0 < x \<Longrightarrow> 0 < pow2_down n x \<and> pow2_down n x \<le> max x ((1 / 2) ^ n)"
proof (induction n arbitrary: x)
  case 0
  then show ?case by simp
next
  case (Suc n)
  show ?case
  proof (cases "1 \<le> x")
    case True
    then show ?thesis by simp
  next
    case False
    from Suc.prems have "0 < 2 * x" by simp
    from Suc.IH [OF this] have "0 < pow2_down n (2 * x)"
      and "pow2_down n (2 * x) \<le> max (2 * x) ((1 / 2) ^ n)" by simp_all
    with False show ?thesis by (auto simp: max_def split: if_splits)
  qed
qed

lemma leading_bit_bounds: "0 < x \<Longrightarrow> 0 < leading_bit x \<and> leading_bit x \<le> max x ((1 / 2) ^ 1022)"
  using pow2_up_bounds [of x] pow2_down_bounds [of x 1022]
  by (auto simp: leading_bit_def)

lemma binary64_error: "\<bar>binary64 x - x\<bar> \<le> (1 / 2) ^ 53 * max \<bar>x\<bar> ((1 / 2) ^ 1022)"
proof (cases "x = 0")
  case True
  then show ?thesis by (simp add: binary64_def)
next
  case False
  define q where "q = leading_bit \<bar>x\<bar> / 2 ^ 52"
  from False have ax: "0 < \<bar>x\<bar>" by simp
  from leading_bit_bounds [OF ax] have p: "0 < leading_bit \<bar>x\<bar>"
    and le: "leading_bit \<bar>x\<bar> \<le> max \<bar>x\<bar> ((1 / 2) ^ 1022)"
    by simp_all
  have q0: "0 < q" using p by (simp add: q_def)
  have "binary64 x = q * of_int (nearest_even (x / q))"
    using False by (simp add: binary64_def q_def Let_def)
  moreover have "x = q * (x / q)" using q0 by simp
  ultimately have "binary64 x - x = q * (of_int (nearest_even (x / q)) - x / q)"
    by (simp only: right_diff_distrib)
  then have "\<bar>binary64 x - x\<bar> = q * \<bar>of_int (nearest_even (x / q)) - x / q\<bar>"
    using q0 by (simp add: abs_mult)
  also have "\<dots> \<le> q * (1 / 2)"
    using q0 nearest_even_error [of "x / q"] by (intro mult_left_mono) simp_all
  also have "\<dots> = (1 / 2) ^ 53 * leading_bit \<bar>x\<bar>" by (simp add: q_def power_divide)
  also have "\<dots> \<le> (1 / 2) ^ 53 * max \<bar>x\<bar> ((1 / 2) ^ 1022)"
    using le by (intro mult_left_mono) simp_all
  finally show ?thesis .
qed

lemma binary64_of_nat:
  assumes "k < 2 ^ 53"
  shows "binary64 (of_nat k) = of_nat k"
proof (cases "k = 0")
  case True
  then show ?thesis by (simp add: binary64_def)
next
  case False
  then have k1: "(1::rat) \<le> of_nat k" by simp
  obtain e where e: "pow2_up (of_nat k) = 2 ^ e"
    using pow2_up_power by blast
  have "(2::rat) ^ e \<le> of_nat k"
    using pow2_up_bounds [of "of_nat k"] k1 by (simp add: e)
  also have "(of_nat k :: rat) < of_nat (2 ^ 53)"
    using assms by (simp only: of_nat_less_iff)
  finally have lt: "(2::rat) ^ e < 2 ^ 53" by (simp only: of_nat_power of_nat_numeral)
  have "(1::rat) < 2" by simp
  from this lt have e53: "e < 53" by (rule power_less_imp_less_exp)
  define m where "m = 52 - e"
  have em: "e + m = 52" using e53 by (simp add: m_def)
  have p52: "(2::rat) ^ 52 = 2 ^ e * 2 ^ m" by (simp only: em [symmetric] power_add)
  have "(2::rat) ^ e / 2 ^ 52 = 2 ^ e / (2 ^ e * 2 ^ m)" by (simp only: p52)
  also have "\<dots> = 1 / 2 ^ m" by simp
  finally have r: "(2::rat) ^ e / 2 ^ 52 = 1 / 2 ^ m" .
  have lb: "leading_bit \<bar>of_nat k\<bar> = 2 ^ e"
    using k1 by (simp add: leading_bit_def e)
  have q: "leading_bit \<bar>of_nat k\<bar> / 2 ^ 52 = 1 / 2 ^ m"
    by (simp only: lb r)
  have nz: "(of_nat k :: rat) \<noteq> 0" using False by simp
  have "(of_nat k :: rat) / (1 / 2 ^ m) = of_int (int k * 2 ^ m)" by simp
  then have ne: "nearest_even (of_nat k / (1 / 2 ^ m)) = int k * 2 ^ m"
    by (simp only: nearest_even_of_int)
  have "binary64 (of_nat k) = 1 / 2 ^ m * of_int (nearest_even (of_nat k / (1 / 2 ^ m)))"
    by (simp only: binary64_def Let_def q nz if_False)
  also have "\<dots> = 1 / 2 ^ m * of_int (int k * 2 ^ m)" by (simp only: ne)
  also have "\<dots> = of_nat k" by simp
  finally show ?thesis .
qed

text \<open>
  The model computes what Python computes. With three messages of confidence 0.7, the
  float \<open>3152519739159347 / 2 ^ 52\<close>, the sum \<^verbatim>\<open>1.4 + 0.7\<close> is a tie that rounds to
  \<^verbatim>\<open>2.0999999999999996\<close>, and the average ends at \<^verbatim>\<open>0.6999999999999998\<close>, the float
  \<open>6305039478318693 / 2 ^ 53\<close>, one spacing below the mean.
\<close>

lemma pow2_up_small: "x < 2 \<Longrightarrow> pow2_up x = 1"
  by (subst pow2_up.simps) simp

lemma pow2_up_large: "2 \<le> x \<Longrightarrow> pow2_up x = 2 * pow2_up (x / 2)"
  by (subst pow2_up.simps) simp

lemma pow2_down_numeral:
  "pow2_down (numeral n) x = (if 1 \<le> x then 1 else pow2_down (pred_numeral n) (2 * x) / 2)"
  by (simp add: numeral_eq_Suc)

lemma floor_numeral_quotient: "\<lfloor>numeral a / numeral b :: rat\<rfloor> = numeral a div numeral b"
  using floor_divide_of_int_eq [of "numeral a" "numeral b", where ?'a = rat] by simp

lemmas binary64_eval = binary64_def leading_bit_def pow2_up_small pow2_up_large pow2_down_numeral
  nearest_even_def Let_def floor_numeral_quotient

lemma binary64_sum_example:
  "binary64 (3152519739159347 / 2251799813685248 + 3152519739159347 / 4503599627370496)
     = 1182194902184755 / 562949953421312"
  by (simp add: binary64_eval)

lemma add_messages_binary64_example:
  "fst (add_messages binary64 equal_calls (new_conversation ''c'' ''l'')) = Inr ()
   \<and> ai_confidence_avg (snd (add_messages binary64 equal_calls (new_conversation ''c'' ''l'')))
       = 6305039478318693 / 9007199254740992
   \<and> sum_list (map (\<lambda>tm. ai_confidence (snd tm)) equal_calls) / of_nat (length equal_calls)
       = 3152519739159347 / 4503599627370496"
  by (simp add: equal_calls_def new_conversation_def plain_message_def add_message_def binary64_eval)

text \<open>
  C3. Starting from a conversation without messages, whatever its average field holds,
  appending \<open>n\<close> messages (at least one) that belong to the conversation, with
  confidences between 0 and 1, succeeds. In the floats of Python, for fewer than
  \<open>2 ^ 53\<close> messages, \<open>ai_confidence_avg\<close> afterwards differs from the sum of their
  confidences divided by \<open>n\<close> by at most \<open>(1 + 1 / 2 ^ 53) ^ (3 * n) - 1\<close>, about
  \<open>3 * n / 2 ^ 53\<close>. In exact arithmetic, where nothing is rounded, the two are equal.
\<close>

theorem ai_confidence_avg_is_mean:
  assumes "messages self = []"
    and "calls \<noteq> []"
    and "\<forall>tm \<in> set calls. appendable self (snd tm)
           \<and> 0 \<le> ai_confidence (snd tm) \<and> ai_confidence (snd tm) \<le> 1"
  shows "fst (add_messages binary64 calls self) = Inr ()
       \<and> messages (snd (add_messages binary64 calls self)) = map snd calls
       \<and> (length calls < 2 ^ 53 \<longrightarrow>
            \<bar>ai_confidence_avg (snd (add_messages binary64 calls self))
               - sum_list (map (\<lambda>tm. ai_confidence (snd tm)) calls) / of_nat (length calls)\<bar>
              \<le> (1 + (1 / 2) ^ 53) ^ (3 * length calls) - 1)
       \<and> fst (add_messages (\<lambda>x. x) calls self) = Inr ()
       \<and> messages (snd (add_messages (\<lambda>x. x) calls self)) = map snd calls
       \<and> ai_confidence_avg (snd (add_messages (\<lambda>x. x) calls self))
           = sum_list (map (\<lambda>tm. ai_confidence (snd tm)) calls) / of_nat (length calls)"
proof -
  have app: "\<forall>tm \<in> set calls. appendable self (snd tm)"
    using assms(3) by simp
  from add_messages_appended [OF app] assms(1) have
    f1: "fst (add_messages binary64 calls self) = Inr ()" and
    f2: "messages (snd (add_messages binary64 calls self)) = map snd calls"
    by simp_all
  have f3: "length calls < 2 ^ 53 \<longrightarrow>
            \<bar>ai_confidence_avg (snd (add_messages binary64 calls self))
               - sum_list (map (\<lambda>tm. ai_confidence (snd tm)) calls) / of_nat (length calls)\<bar>
              \<le> (1 + (1 / 2) ^ 53) ^ (3 * length calls) - 1"
  proof
    assume n: "length calls < 2 ^ 53"
    have u: "(0::rat) \<le> (1 / 2) ^ 53" and t: "((1 / 2) ^ 1022 :: rat) \<le> 1"
      by (simp_all add: power_le_one)
    have e: "\<forall>x. \<bar>x\<bar> \<le> of_nat (length calls) * (1 + (1 / 2) ^ 53) ^ (3 * length calls)
               \<longrightarrow> \<bar>binary64 x - x\<bar> \<le> (1 / 2) ^ 53 * max \<bar>x\<bar> ((1 / 2) ^ 1022)"
      by (simp only: binary64_error simp_thms)
    have i: "\<forall>k \<le> length calls. binary64 (of_nat k) = of_nat k"
    proof (intro allI impI)
      fix k :: nat
      assume "k \<le> length calls"
      from this n have "k < 2 ^ 53" by (rule le_less_trans)
      then show "binary64 (of_nat k) = of_nat k" by (rule binary64_of_nat)
    qed
    from add_messages_rounded [OF assms(1) assms(2) assms(3) u t e i]
    show "\<bar>ai_confidence_avg (snd (add_messages binary64 calls self))
             - sum_list (map (\<lambda>tm. ai_confidence (snd tm)) calls) / of_nat (length calls)\<bar>
            \<le> (1 + (1 / 2) ^ 53) ^ (3 * length calls) - 1"
      by (rule conjunct2 [THEN conjunct2, THEN conjunct1])
  qed
  have u0: "(0::rat) \<le> 0" and t0: "(0::rat) \<le> 1" by simp_all
  have e0: "\<forall>x. \<bar>x\<bar> \<le> of_nat (length calls) * (1 + 0) ^ (3 * length calls)
             \<longrightarrow> \<bar>(\<lambda>x::rat. x) x - x\<bar> \<le> 0 * max \<bar>x\<bar> 0"
    by simp
  have i0: "\<forall>k \<le> length calls. (\<lambda>x::rat. x) (of_nat k) = of_nat k"
    by simp
  note r0 = add_messages_rounded [OF assms(1) assms(2) assms(3) u0 t0 e0 i0]
  have f4: "fst (add_messages (\<lambda>x. x) calls self) = Inr ()"
    using r0 by (rule conjunct1)
  have f5: "messages (snd (add_messages (\<lambda>x. x) calls self)) = map snd calls"
    using r0 by (rule conjunct2 [THEN conjunct1])
  have f6: "ai_confidence_avg (snd (add_messages (\<lambda>x. x) calls self))
              = sum_list (map (\<lambda>tm. ai_confidence (snd tm)) calls) / of_nat (length calls)"
    using r0 [THEN conjunct2, THEN conjunct2, THEN conjunct2] by simp
  from f1 f2 f3 f4 f5 f6 show ?thesis by (intro conjI)
qed

theorem ai_confidence_avg_is_mean_witness:
  "fst (add_messages binary64 three_calls (new_conversation ''c'' ''l'')) = Inr ()
   \<and> \<bar>ai_confidence_avg (snd (add_messages binary64 three_calls (new_conversation ''c'' ''l'')))
        - 0.6\<bar> \<le> 1 / 10 ^ 15
   \<and> fst (add_messages (\<lambda>x. x) three_calls (new_conversation ''c'' ''l'')) = Inr ()
   \<and> ai_confidence_avg (snd (add_messages (\<lambda>x. x) three_calls (new_conversation ''c'' ''l'')))
        = 0.6"
proof -
  have a: "messages (new_conversation ''c'' ''l'') = []"
    by (simp add: new_conversation_def)
  have b: "three_calls \<noteq> []"
    by (simp add: three_calls_def)
  have c: "\<forall>tm \<in> set three_calls. appendable (new_conversation ''c'' ''l'') (snd tm)
             \<and> 0 \<le> ai_confidence (snd tm) \<and> ai_confidence (snd tm) \<le> 1"
    by (simp add: three_calls_def appendable_def new_conversation_def plain_message_def)
  have d: "sum_list (map (\<lambda>tm. ai_confidence (snd tm)) three_calls) / of_nat (length three_calls) = 0.6"
    by (simp add: three_calls_def plain_message_def)
  have n: "length three_calls = 3"
    by (simp add: three_calls_def)
  have n53: "length three_calls < 2 ^ 53"
    by (simp add: n)
  have ulp: "(1 + (1 / 2) ^ 53 :: rat) = 9007199254740993 / 9007199254740992"
    by (simp add: power_one_over)
  note r = ai_confidence_avg_is_mean [OF a b c]
  have r1: "fst (add_messages binary64 three_calls (new_conversation ''c'' ''l'')) = Inr ()"
    using r by (rule conjunct1)
  from r have "length three_calls < 2 ^ 53 \<longrightarrow>
      \<bar>ai_confidence_avg (snd (add_messages binary64 three_calls (new_conversation ''c'' ''l'')))
         - sum_list (map (\<lambda>tm. ai_confidence (snd tm)) three_calls) / of_nat (length three_calls)\<bar>
        \<le> (1 + (1 / 2) ^ 53) ^ (3 * length three_calls) - 1"
    by (rule conjunct2 [THEN conjunct2, THEN conjunct1])
  from this n53 have "\<bar>ai_confidence_avg (snd (add_messages binary64 three_calls (new_conversation ''c'' ''l'')))
         - sum_list (map (\<lambda>tm. ai_confidence (snd tm)) three_calls) / of_nat (length three_calls)\<bar>
        \<le> (1 + (1 / 2) ^ 53) ^ (3 * length three_calls) - 1"
    by (rule mp)
  then have "\<bar>ai_confidence_avg (snd (add_messages binary64 three_calls (new_conversation ''c'' ''l'')))
          - 0.6\<bar> \<le> (1 + (1 / 2) ^ 53) ^ (3 * length three_calls) - 1"
    by (simp only: d)
  also have "\<dots> \<le> 1 / 10 ^ 15"
    by (simp add: n ulp power_divide)
  finally have r2: "\<bar>ai_confidence_avg (snd (add_messages binary64 three_calls (new_conversation ''c'' ''l'')))
          - 0.6\<bar> \<le> 1 / 10 ^ 15" .
  have r3: "fst (add_messages (\<lambda>x. x) three_calls (new_conversation ''c'' ''l'')) = Inr ()"
    using r by (rule conjunct2 [THEN conjunct2, THEN conjunct2, THEN conjunct1])
  have "ai_confidence_avg (snd (add_messages (\<lambda>x. x) three_calls (new_conversation ''c'' ''l'')))
          = sum_list (map (\<lambda>tm. ai_confidence (snd tm)) three_calls) / of_nat (length three_calls)"
    using r by (rule conjunct2 [THEN conjunct2, THEN conjunct2, THEN conjunct2, THEN conjunct2])
  also have "\<dots> = 0.6" by (rule d)
  finally have r4: "ai_confidence_avg (snd (add_messages (\<lambda>x. x) three_calls (new_conversation ''c'' ''l'')))
          = 0.6" .
  from r1 r2 r3 r4 show ?thesis by (intro conjI)
qed

section \<open>A message of another conversation\<close>

text \<open>
  C4. A message whose \<open>conversation_id\<close> differs from the conversation's id makes
  \<open>add_message\<close> raise ValueError and leaves the whole conversation as it was: message
  list, average, current intent, status and every other field.
\<close>

theorem add_message_foreign:
  assumes "conversation_id message \<noteq> c_id self"
  shows "add_message rnd now message self = (Inl ValueError, self)"
  using assms by (simp add: add_message_def)

theorem add_message_foreign_witness:
  "add_message binary64 5 (plain_message ''m1'' ''other'' ''hello'' 0.9) (new_conversation ''c'' ''l'')
     = (Inl ValueError, new_conversation ''c'' ''l'')"
proof -
  have "conversation_id (plain_message ''m1'' ''other'' ''hello'' 0.9) \<noteq> c_id (new_conversation ''c'' ''l'')"
    by (simp add: plain_message_def new_conversation_def)
  from add_message_foreign [OF this] show ?thesis .
qed

section \<open>Cache miss and unreadable entry\<close>

lemma get_conversation_context_closed:
  assumes "\<not> fst (is_circuit_open now (circuit_breaker self))" and "reachable r"
  shows "fst (get_conversation_context lib now conv_id (self, r))
           = read_raw_data lib now (map_option snd (entries r (context_key self conv_id)))"
  using assms by (simp add: get_conversation_context_def redis_get_def Let_def)

lemma read_raw_data_unreadable:
  assumes "raw \<noteq> []" and "unreadable lib raw"
  shows "read_raw_data lib now (Some raw) = Inl ValueError"
  using assms
  by (auto simp: read_raw_data_def unreadable_def json_loads_bytes_def
           split: if_splits option.splits)

text \<open>
  C5, as the code has it. While the breaker is closed and Redis answers, a read of a key
  that holds no entry returns the empty context, and a read of a key that holds a
  non-empty unreadable text raises ValueError, which is not the empty context.
\<close>

theorem get_conversation_context_miss_or_unreadable:
  assumes "\<not> fst (is_circuit_open now (circuit_breaker self))" and "reachable r"
  shows "(entries r (context_key self conv_id) = None
            \<longrightarrow> fst (get_conversation_context lib now conv_id (self, r))
                  = Inr (empty_context lib now))
       \<and> (\<forall>ttl raw. entries r (context_key self conv_id) = Some (ttl, raw)
                      \<and> raw \<noteq> [] \<and> unreadable lib raw
            \<longrightarrow> fst (get_conversation_context lib now conv_id (self, r)) = Inl ValueError)"
  using read_raw_data_unreadable
  by (auto simp: get_conversation_context_closed [OF assms] read_raw_data_def)

theorem get_conversation_context_miss_or_unreadable_witness:
  "fst (get_conversation_context sample_lib 0 ''c1''
          (sample_service, redis_holding [(context_key sample_service ''c2'', ''not json'')]))
     = Inr (empty_context sample_lib 0)
   \<and> fst (get_conversation_context sample_lib 0 ''c2''
          (sample_service, redis_holding [(context_key sample_service ''c2'', ''not json'')]))
     = Inl ValueError"
proof -
  let ?r = "redis_holding [(context_key sample_service ''c2'', ''not json'')]"
  have a: "\<not> fst (is_circuit_open 0 (circuit_breaker sample_service))"
    by (simp add: is_circuit_open_def sample_service_def ContextService_init_def)
  have b: "reachable ?r"
    by (simp add: redis_holding_def)
  have c1: "entries ?r (context_key sample_service ''c1'') = None"
    by (simp add: redis_holding_def context_key_def)
  have c2: "entries ?r (context_key sample_service ''c2'') = Some (3600, ''not json'')
            \<and> ''not json'' \<noteq> [] \<and> unreadable sample_lib ''not json''"
    by (simp add: redis_holding_def unreadable_def startswith_def sample_lib_def human_reply_def greeting_reply_def)
  from get_conversation_context_miss_or_unreadable [OF a b, of "''c1''" sample_lib] c1
  have r1: "fst (get_conversation_context sample_lib 0 ''c1'' (sample_service, ?r))
              = Inr (empty_context sample_lib 0)"
    by blast
  from get_conversation_context_miss_or_unreadable [OF a b, of "''c2''" sample_lib] c2
  have r2: "fst (get_conversation_context sample_lib 0 ''c2'' (sample_service, ?r)) = Inl ValueError"
    by blast
  from r1 r2 show ?thesis by (rule conjI)
qed

text \<open>
  C5 as stated fails twice. The empty text is rejected by the JSON parser, yet a key that
  holds it reads as the empty context. And a key that was never written reads as an
  error while the breaker is open.
\<close>

theorem get_conversation_context_not_distinguished:
  "json_loads sample_lib [] = None
   \<and> fst (get_conversation_context sample_lib 0 ''c1''
          (sample_service, redis_holding [(context_key sample_service ''c1'', [])]))
       = Inr (empty_context sample_lib 0)
   \<and> fst (get_conversation_context sample_lib 1000000 ''c1''
          (failed_service 3 0, redis_holding []))
       = Inl RedisError"
  by (simp add: get_conversation_context_def redis_get_def read_raw_data_def Let_def
                is_circuit_open_def timedelta_seconds_def
                sample_service_def failed_service_def ContextService_init_def
                redis_holding_def sample_lib_def human_reply_def greeting_reply_def)

section \<open>Reading back a stored context\<close>

lemma stored_text_small:
  assumes "length (json_dumps lib (PDict (dict_set ''version'' (PStr (version self))
                     (dict_set ''updated_at'' (PStr (isoformat lib now)) context))))
             \<le> compression_threshold self"
  shows "stored_text lib now self context
           = Inr (json_dumps lib (PDict (dict_set ''version'' (PStr (version self))
                     (dict_set ''updated_at'' (PStr (isoformat lib now)) context))))"
  using assms by (simp add: stored_text_def Let_def)

text \<open>
  The path without compression: a context whose text is short is written as it is and
  read back as the dictionary that was serialised, the two stamps included, when the
  parser inverts the serialiser on that text.
\<close>

lemma uncompressed_round_trip:
  assumes "reachable r"
    and "\<not> fst (is_circuit_open now' (circuit_breaker self))"
    and "stamped = dict_set ''version'' (PStr (version self))
                     (dict_set ''updated_at'' (PStr (isoformat lib now)) d)"
    and "length (json_dumps lib (PDict stamped)) \<le> compression_threshold self"
    and "json_dumps lib (PDict stamped) \<noteq> []"
    and "\<not> startswith (json_dumps lib (PDict stamped)) ''compressed:''"
    and "json_loads lib (json_dumps lib (PDict stamped)) = Some (PDict stamped)"
  shows "fst (update_context lib now conv_id (PDict d) (self, r)) = Inr True"
    and "fst (get_conversation_context lib now' conv_id
                (snd (update_context lib now conv_id (PDict d) (self, r)))) = Inr (PDict stamped)"
proof -
  have st: "stored_text lib now self d = Inr (json_dumps lib (PDict stamped))"
    using assms(3,4) by (simp add: stored_text_small)
  have up: "update_context lib now conv_id (PDict d) (self, r)
              = (Inr True, self,
                 r\<lparr>entries := (entries r)(context_key self conv_id
                                   \<mapsto> (context_ttl self, json_dumps lib (PDict stamped))),
                   commands := Suc (commands r)\<rparr>)"
    using assms(1) by (simp add: update_context_def st redis_setex_def Let_def)
  show "fst (update_context lib now conv_id (PDict d) (self, r)) = Inr True"
    by (simp add: up)
  show "fst (get_conversation_context lib now' conv_id
               (snd (update_context lib now conv_id (PDict d) (self, r)))) = Inr (PDict stamped)"
    using assms(1,2,5,6,7)
    by (simp add: up get_conversation_context_closed read_raw_data_def)
qed

text \<open>
  On the compression branch the write fails when the compressed bytes are no UTF-8 text,
  and otherwise stores them behind the eleven characters \<^verbatim>\<open>compressed:\<close>.
\<close>

lemma stored_text_compressed:
  assumes "stored_text lib now self context = Inr text"
    and "startswith text ''compressed:''"
    and "\<not> startswith (json_dumps lib (PDict (dict_set ''version'' (PStr (version self))
                     (dict_set ''updated_at'' (PStr (isoformat lib now)) context)))) ''compressed:''"
  shows "\<exists>s. text = ''compressed:'' @ s
             \<and> bytes_decode lib (zlib_compress lib (str_encode lib
                  (json_dumps lib (PDict (dict_set ''version'' (PStr (version self))
                     (dict_set ''updated_at'' (PStr (isoformat lib now)) context)))))) = Some s"
  using assms
  by (auto simp: stored_text_def Let_def split: if_splits option.splits)

lemma stored_text_undecodable:
  assumes "data = json_dumps lib (PDict (dict_set ''version'' (PStr (version self))
                     (dict_set ''updated_at'' (PStr (isoformat lib now)) context)))"
    and "length data > compression_threshold self"
    and "(of_nat (bytes_len (zlib_compress lib (str_encode lib data))) :: rat) / of_nat (length data) < 0.9"
    and "bytes_decode lib (zlib_compress lib (str_encode lib data)) = None"
  shows "stored_text lib now self context = Inl UnicodeDecodeError"
  using assms by (simp add: stored_text_def Let_def)

text \<open>
  A decompression that rejects what starts with a colon, as the header check of zlib does,
  makes every entry written on the compression branch unreadable.
\<close>

lemma compressed_entry_unreadable:
  assumes "zlib_decompress lib (str_encode lib (CHR '':'' # s)) = None"
  shows "read_raw_data lib now (Some (''compressed:'' @ s)) = Inl ValueError"
  using assms by (simp add: read_raw_data_def startswith_def)

text \<open>
  An entry whose data after the prefix decompresses and parses is unreadable all the same.
\<close>

lemma framing_lib_inverts:
  "zlib_decompress framing_lib (zlib_compress framing_lib b) = Some b"
  by (cases b) (simp add: framing_lib_def)

lemma compressed_entry_example:
  "zlib_decompress framing_lib (str_encode framing_lib ''x{}'') = Some (Bytes ''{}'')
   \<and> json_loads_bytes framing_lib (Bytes ''{}'') = Inr (PDict [])
   \<and> read_raw_data framing_lib 0 (Some ''compressed:x{}'') = Inl ValueError"
  by (simp add: read_raw_data_def startswith_def json_loads_bytes_def framing_lib_def sample_lib_def human_reply_def greeting_reply_def)

text \<open>
  C6. A stored text \<^verbatim>\<open>compressed:\<close> followed by \<open>s\<close> is not read back by decompressing
  \<open>s\<close>: the read drops ten of the eleven characters of the prefix and hands the colon
  and \<open>s\<close> to the decompression.
\<close>

theorem read_raw_data_compressed:
  "read_raw_data lib now (Some (''compressed:'' @ s))
     = (case zlib_decompress lib (str_encode lib (CHR '':'' # s)) of
          None \<Rightarrow> Inl ValueError
        | Some context_data \<Rightarrow> json_loads_bytes lib context_data)"
  by (simp add: read_raw_data_def startswith_def)

section \<open>The context window\<close>

lemma MessageDirection_value_cases:
  "MessageDirection_value d = (case d of INBOUND \<Rightarrow> ''inbound'' | OUTBOUND \<Rightarrow> ''outbound'')"
  by (cases d) simp_all

lemma ConversationStatus_value_cases:
  "ConversationStatus_value s
     = (case s of ACTIVE \<Rightarrow> ''active'' | HUMAN_NEEDED \<Rightarrow> ''human_needed''
        | COMPLETED \<Rightarrow> ''completed'' | ARCHIVED \<Rightarrow> ''archived'')"
  by (cases s) simp_all

lemma IntentType_value_cases:
  "IntentType_value t
     = (case t of GREETING \<Rightarrow> ''greeting'' | QUESTION \<Rightarrow> ''question''
        | COMPLAINT \<Rightarrow> ''complaint'' | REQUEST_HUMAN \<Rightarrow> ''request_human''
        | FAREWELL \<Rightarrow> ''farewell'' | UNKNOWN \<Rightarrow> ''unknown'')"
  by (cases t) simp_all

lemma last_ten: "drop (length xs - 10) xs = rev (take 10 (rev xs))"
  by (simp add: take_rev)

text \<open>
  C7, as the code has it. The context built from a conversation is determined by the
  conversation and by the reading of the clock, which becomes \<open>created_at\<close>; nothing else
  is read and nothing is written. Its messages are the last ten messages of the
  conversation in their order (all of them when there are fewer), so never more than ten,
  each as a dictionary of content, direction, creation time and confidence; its metadata
  holds the lead, the status, the running average and, as \<open>message_count\<close>, the length of
  the whole message list; and \<open>current_intent\<close> is absent when the conversation has none,
  and otherwise a dictionary of exactly two entries, the type and the confidence of the
  intent.
\<close>

theorem build_context_window:
  "build_context lib now conversation
     = PDict
         [(''messages'',
           PList (map (\<lambda>msg.
                    PDict [(''content'', PStr (content msg)),
                           (''direction'',
                            PStr (case direction msg of
                                    INBOUND \<Rightarrow> ''inbound'' | OUTBOUND \<Rightarrow> ''outbound'')),
                           (''created_at'', PStr (isoformat lib (m_created_at msg))),
                           (''ai_confidence'', PNum (ai_confidence msg))])
                  (rev (take 10 (rev (messages conversation)))))),
          (''metadata'',
           PDict ([(''lead_id'', PStr (lead_id conversation)),
                   (''status'',
                    PStr (case status conversation of
                            ACTIVE \<Rightarrow> ''active'' | HUMAN_NEEDED \<Rightarrow> ''human_needed''
                          | COMPLETED \<Rightarrow> ''completed'' | ARCHIVED \<Rightarrow> ''archived'')),
                   (''ai_confidence_avg'', PNum (ai_confidence_avg conversation)),
                   (''message_count'', PNum (of_nat (length (messages conversation))))]
                  @ (case current_intent conversation of
                       None \<Rightarrow> []
                     | Some i \<Rightarrow>
                         [(''current_intent'',
                           PDict [(''type'',
                                   PStr (case itype i of
                                           GREETING \<Rightarrow> ''greeting'' | QUESTION \<Rightarrow> ''question''
                                         | COMPLAINT \<Rightarrow> ''complaint''
                                         | REQUEST_HUMAN \<Rightarrow> ''request_human''
                                         | FAREWELL \<Rightarrow> ''farewell'' | UNKNOWN \<Rightarrow> ''unknown'')),
                                  (''confidence'', PNum (confidence i))])]))),
          (''created_at'', PStr (isoformat lib now))]
   \<and> length (rev (take 10 (rev (messages conversation)))) = min 10 (length (messages conversation))
   \<and> context_metadata (build_context lib now conversation) ''message_count''
       = Inr (PNum (of_nat (length (messages conversation))))
   \<and> context_metadata (build_context lib now conversation) ''current_intent''
       = (case current_intent conversation of
            None \<Rightarrow> Inl KeyError
          | Some i \<Rightarrow> Inr (PDict [(''type'', PStr (IntentType_value (itype i))),
                                   (''confidence'', PNum (confidence i))]))"
proof -
  have l: "length (rev (take 10 (rev (messages conversation)))) = min 10 (length (messages conversation))"
    by simp
  have c: "context_metadata (build_context lib now conversation) ''message_count''
             = Inr (PNum (of_nat (length (messages conversation))))"
    by (cases "current_intent conversation")
       (simp_all add: build_context_def context_metadata_def Let_def dict_get_def)
  have i: "context_metadata (build_context lib now conversation) ''current_intent''
             = (case current_intent conversation of
                  None \<Rightarrow> Inl KeyError
                | Some i \<Rightarrow> Inr (PDict [(''type'', PStr (IntentType_value (itype i))),
                                         (''confidence'', PNum (confidence i))]))"
    by (cases "current_intent conversation")
       (simp_all add: build_context_def context_metadata_def intent_summary_def Let_def dict_get_def)
  show ?thesis
    unfolding c i
    by (cases "current_intent conversation")
       (simp_all add: build_context_def message_summary_def intent_summary_def Let_def last_ten
                      MessageDirection_value_cases ConversationStatus_value_cases
                      IntentType_value_cases)
qed

text \<open>
  C7 as stated fails: the context is no function of the conversation alone. The same
  conversation gives two different contexts at two readings of the clock, one second
  apart.
\<close>

theorem build_context_reads_clock:
  "build_context ticking_lib 0 (new_conversation ''c'' ''l'')
     \<noteq> build_context ticking_lib 1000000 (new_conversation ''c'' ''l'')
   \<and> subscript (build_context ticking_lib 0 (new_conversation ''c'' ''l'')) ''created_at''
       = Inr (PStr ''1970-01-01T00:00:00'')
   \<and> subscript (build_context ticking_lib 1000000 (new_conversation ''c'' ''l'')) ''created_at''
       = Inr (PStr ''1970-01-01T00:00:01'')"
  by (simp add: build_context_def ticking_lib_def new_conversation_def Let_def dict_get_def)

section \<open>The circuit breaker\<close>

lemma timedelta_seconds_below:
  assumes "0 \<le> d" and "d < 30000000"
  shows "timedelta_seconds d < 30"
proof -
  have "0 \<le> d div 1000000" and "d div 1000000 < 30"
    using assms by simp_all
  then show ?thesis
    by (simp add: timedelta_seconds_def)
qed

lemma timedelta_seconds_above:
  assumes "30000000 \<le> d" and "d < 86400000000"
  shows "30 \<le> timedelta_seconds d"
proof -
  have "30 \<le> d div 1000000" and "d div 1000000 < 86400"
    using assms by simp_all
  then show ?thesis
    by (simp add: timedelta_seconds_def)
qed

lemma is_circuit_open_below:
  assumes "failures cb < threshold cb"
  shows "is_circuit_open now cb = (False, cb)"
  using assms by (simp add: is_circuit_open_def)

lemma is_circuit_open_rejects:
  assumes "threshold cb = 3" and "reset_timeout cb = 30"
    and "3 \<le> failures cb" and "last_failure cb = Some t"
    and "0 \<le> now - t" and "now - t < 30000000"
  shows "is_circuit_open now cb = (True, cb)"
  using assms timedelta_seconds_below [of "now - t"]
  by (simp add: is_circuit_open_def Let_def)

lemma is_circuit_open_resets:
  assumes "threshold cb = 3" and "reset_timeout cb = 30"
    and "3 \<le> failures cb" and "last_failure cb = Some t"
    and "30000000 \<le> now - t" and "now - t < 86400000000"
  shows "is_circuit_open now cb = (False, cb\<lparr>failures := 0, last_failure := None\<rparr>)"
  using assms timedelta_seconds_above [of "now - t"]
  by (simp add: is_circuit_open_def Let_def)

text \<open>One operation, by the state of the breaker and of the server.\<close>

lemma get_unreachable:
  assumes "failures (circuit_breaker self) < threshold (circuit_breaker self)"
    and "\<not> reachable r"
  shows "get_conversation_context lib now conv_id (self, r)
           = (Inl RedisError,
              self\<lparr>circuit_breaker := record_failure now (circuit_breaker self)\<rparr>,
              r\<lparr>commands := Suc (commands r)\<rparr>)"
  using assms
  by (simp add: get_conversation_context_def is_circuit_open_below redis_get_def Let_def)

lemma get_reachable:
  assumes "failures (circuit_breaker self) < threshold (circuit_breaker self)"
    and "reachable r"
  shows "snd (get_conversation_context lib now conv_id (self, r))
           = (self, r\<lparr>commands := Suc (commands r)\<rparr>)"
  using assms
  by (simp add: get_conversation_context_def is_circuit_open_below redis_get_def Let_def)

lemma get_miss:
  assumes "failures (circuit_breaker self) < threshold (circuit_breaker self)"
    and "reachable r"
    and "entries r (context_key self conv_id) = None"
  shows "get_conversation_context lib now conv_id (self, r)
           = (Inr (empty_context lib now), self, r\<lparr>commands := Suc (commands r)\<rparr>)"
  using assms
  by (simp add: get_conversation_context_def is_circuit_open_below redis_get_def
                read_raw_data_def Let_def)

lemma get_rejected:
  assumes "is_circuit_open now (circuit_breaker self) = (True, circuit_breaker self)"
  shows "get_conversation_context lib now conv_id (self, r)
           = (Inl RedisError,
              self\<lparr>circuit_breaker := record_failure now (circuit_breaker self)\<rparr>, r)"
  using assms
  by (simp add: get_conversation_context_def Let_def)

lemma get_after_reset:
  assumes "is_circuit_open now (circuit_breaker self)
             = (False, (circuit_breaker self)\<lparr>failures := 0, last_failure := None\<rparr>)"
    and "0 < threshold (circuit_breaker self)"
  shows "get_conversation_context lib now conv_id (self, r)
           = get_conversation_context lib now conv_id
               (self\<lparr>circuit_breaker :=
                  (circuit_breaker self)\<lparr>failures := 0, last_failure := None\<rparr>\<rparr>, r)"
proof -
  let ?cb = "(circuit_breaker self)\<lparr>failures := 0, last_failure := None\<rparr>"
  have "is_circuit_open now ?cb = (False, ?cb)"
    using assms(2) by (simp add: is_circuit_open_below)
  then show ?thesis
    by (simp add: get_conversation_context_def assms(1) Let_def redis_get_def context_key_def)
qed

lemma update_context_unreachable:
  assumes "stored_text lib now self d = Inr text" and "\<not> reachable r"
  shows "update_context lib now conv_id (PDict d) (self, r)
           = (Inl RedisError,
              self\<lparr>circuit_breaker := record_failure now (circuit_breaker self)\<rparr>,
              r\<lparr>commands := Suc (commands r)\<rparr>)"
  using assms by (simp add: update_context_def redis_setex_def Let_def)

lemma clear_context_unreachable:
  assumes "\<not> reachable r"
  shows "clear_context now conv_id (self, r)
           = (Inl RedisError,
              self\<lparr>circuit_breaker := record_failure now (circuit_breaker self)\<rparr>,
              r\<lparr>commands := Suc (commands r)\<rparr>)"
  using assms by (simp add: clear_context_def redis_delete_def Let_def)

text \<open>The same on the example service and a server without entries.\<close>

lemma redis_state_reachable: "(redis_state up n)\<lparr>reachable := up'\<rparr> = redis_state up' n"
  by (simp add: redis_state_def)

lemma redis_holding_nothing: "redis_holding [] = redis_state True 0"
  by (simp add: redis_holding_def redis_state_def)

lemma record_first_failure:
  "sample_service\<lparr>circuit_breaker := record_failure now (circuit_breaker sample_service)\<rparr>
     = failed_service 1 now"
  by (simp add: sample_service_def ContextService_init_def failed_service_def record_failure_def)

lemma record_next_failure:
  "(failed_service k t)\<lparr>circuit_breaker := record_failure now (circuit_breaker (failed_service k t))\<rparr>
     = failed_service (Suc k) now"
  by (simp add: sample_service_def ContextService_init_def failed_service_def record_failure_def)

lemma first_failure:
  "get_conversation_context lib now conv_id (sample_service, redis_state False n)
     = (Inl RedisError, failed_service 1 now, redis_state False (Suc n))"
  by (simp add: get_unreachable sample_service_def ContextService_init_def redis_state_def
                failed_service_def record_failure_def)

lemma next_failure:
  assumes "k < 3"
  shows "get_conversation_context lib now conv_id (failed_service k t, redis_state False n)
     = (Inl RedisError, failed_service (Suc k) now, redis_state False (Suc n))"
  using assms
  by (simp add: get_unreachable sample_service_def ContextService_init_def redis_state_def
                failed_service_def record_failure_def)

lemma success_keeps_count:
  assumes "k < 3"
  shows "get_conversation_context lib now conv_id (failed_service k t, redis_state True n)
     = (Inr (empty_context lib now), failed_service k t, redis_state True (Suc n))"
  using assms
  by (simp add: get_miss sample_service_def ContextService_init_def redis_state_def
                failed_service_def)

lemma open_rejects:
  assumes "3 \<le> k" and "0 \<le> now - t" and "now - t < 30000000"
  shows "get_conversation_context lib now conv_id (failed_service k t, r)
     = (Inl RedisError, failed_service (Suc k) now, r)"
proof -
  have "is_circuit_open now (circuit_breaker (failed_service k t))
          = (True, circuit_breaker (failed_service k t))"
    using assms
    by (intro is_circuit_open_rejects [where t = t])
       (simp_all add: failed_service_def sample_service_def ContextService_init_def)
  then show ?thesis
    by (simp add: get_rejected record_next_failure)
qed

lemma update_context_reachable:
  assumes "stored_text lib now self d = Inr payload" and "reachable r"
  shows "update_context lib now conv_id (PDict d) (self, r)
           = (Inr True, self,
              r\<lparr>entries := (entries r)(context_key self conv_id \<mapsto> (context_ttl self, payload)),
                commands := Suc (commands r)\<rparr>)"
  using assms by (simp add: update_context_def redis_setex_def Let_def)

lemma clear_context_reachable:
  assumes "reachable r"
  shows "snd (clear_context now conv_id (self, r))
           = (self, r\<lparr>entries := (entries r)(context_key self conv_id := None),
                       commands := Suc (commands r)\<rparr>)"
  using assms by (simp add: clear_context_def redis_delete_def Let_def)

text \<open>
  C8, as the code has it, for the configured threshold 3 and timeout 30. Below three
  recorded failures, a read, a write or a delete that Redis does not answer raises
  RedisError and is counted as one more failure, stamped with its time; a read, a write
  or a delete that Redis answers leaves the breaker as it is, so no success resets the
  count. From three recorded failures on, a read less than 30 seconds after the last
  recorded failure raises RedisError and sends no command to Redis; a read between 30
  seconds and a day after the last recorded failure runs as if the count were zero.
\<close>

theorem circuit_breaker_counts_and_rejects:
  assumes "threshold (circuit_breaker self) = 3"
    and "reset_timeout (circuit_breaker self) = 30"
  shows "(failures (circuit_breaker self) < 3 \<and> \<not> reachable r
            \<longrightarrow> get_conversation_context lib now conv_id (self, r)
                  = (Inl RedisError,
                     self\<lparr>circuit_breaker := record_failure now (circuit_breaker self)\<rparr>,
                     r\<lparr>commands := Suc (commands r)\<rparr>))
       \<and> (\<forall>d payload. failures (circuit_breaker self) < 3
                \<and> stored_text lib now self d = Inr payload \<and> \<not> reachable r
            \<longrightarrow> update_context lib now conv_id (PDict d) (self, r)
                  = (Inl RedisError,
                     self\<lparr>circuit_breaker := record_failure now (circuit_breaker self)\<rparr>,
                     r\<lparr>commands := Suc (commands r)\<rparr>))
       \<and> (failures (circuit_breaker self) < 3 \<and> \<not> reachable r
            \<longrightarrow> clear_context now conv_id (self, r)
                  = (Inl RedisError,
                     self\<lparr>circuit_breaker := record_failure now (circuit_breaker self)\<rparr>,
                     r\<lparr>commands := Suc (commands r)\<rparr>))
       \<and> (failures (circuit_breaker self) < 3 \<and> reachable r
            \<longrightarrow> snd (get_conversation_context lib now conv_id (self, r))
                  = (self, r\<lparr>commands := Suc (commands r)\<rparr>))
       \<and> (\<forall>d payload. failures (circuit_breaker self) < 3
                \<and> stored_text lib now self d = Inr payload \<and> reachable r
            \<longrightarrow> update_context lib now conv_id (PDict d) (self, r)
                  = (Inr True, self,
                     r\<lparr>entries := (entries r)(context_key self conv_id
                                                  \<mapsto> (context_ttl self, payload)),
                       commands := Suc (commands r)\<rparr>))
       \<and> (failures (circuit_breaker self) < 3 \<and> reachable r
            \<longrightarrow> snd (clear_context now conv_id (self, r))
                  = (self, r\<lparr>entries := (entries r)(context_key self conv_id := None),
                              commands := Suc (commands r)\<rparr>))
       \<and> (\<forall>t. 3 \<le> failures (circuit_breaker self) \<and> last_failure (circuit_breaker self) = Some t
                \<and> 0 \<le> now - t \<and> now - t < 30000000
            \<longrightarrow> fst (get_conversation_context lib now conv_id (self, r)) = Inl RedisError
                \<and> snd (snd (get_conversation_context lib now conv_id (self, r))) = r)
       \<and> (\<forall>t. 3 \<le> failures (circuit_breaker self) \<and> last_failure (circuit_breaker self) = Some t
                \<and> 30000000 \<le> now - t \<and> now - t < 86400000000
            \<longrightarrow> get_conversation_context lib now conv_id (self, r)
                  = get_conversation_context lib now conv_id
                      (self\<lparr>circuit_breaker :=
                         (circuit_breaker self)\<lparr>failures := 0, last_failure := None\<rparr>\<rparr>, r))"
proof (intro conjI allI impI)
  assume "failures (circuit_breaker self) < 3 \<and> \<not> reachable r"
  then show "get_conversation_context lib now conv_id (self, r)
               = (Inl RedisError,
                  self\<lparr>circuit_breaker := record_failure now (circuit_breaker self)\<rparr>,
                  r\<lparr>commands := Suc (commands r)\<rparr>)"
    using assms(1) by (simp add: get_unreachable)
next
  fix d payload
  assume "failures (circuit_breaker self) < 3
          \<and> stored_text lib now self d = Inr payload \<and> \<not> reachable r"
  then show "update_context lib now conv_id (PDict d) (self, r)
               = (Inl RedisError,
                  self\<lparr>circuit_breaker := record_failure now (circuit_breaker self)\<rparr>,
                  r\<lparr>commands := Suc (commands r)\<rparr>)"
    by (simp add: update_context_unreachable)
next
  assume "failures (circuit_breaker self) < 3 \<and> \<not> reachable r"
  then show "clear_context now conv_id (self, r)
               = (Inl RedisError,
                  self\<lparr>circuit_breaker := record_failure now (circuit_breaker self)\<rparr>,
                  r\<lparr>commands := Suc (commands r)\<rparr>)"
    by (simp add: clear_context_unreachable)
next
  assume "failures (circuit_breaker self) < 3 \<and> reachable r"
  then show "snd (get_conversation_context lib now conv_id (self, r))
               = (self, r\<lparr>commands := Suc (commands r)\<rparr>)"
    using assms(1) by (simp add: get_reachable)
next
  fix d payload
  assume "failures (circuit_breaker self) < 3
          \<and> stored_text lib now self d = Inr payload \<and> reachable r"
  then show "update_context lib now conv_id (PDict d) (self, r)
               = (Inr True, self,
                  r\<lparr>entries := (entries r)(context_key self conv_id
                                               \<mapsto> (context_ttl self, payload)),
                    commands := Suc (commands r)\<rparr>)"
    by (simp add: update_context_reachable)
next
  assume "failures (circuit_breaker self) < 3 \<and> reachable r"
  then show "snd (clear_context now conv_id (self, r))
               = (self, r\<lparr>entries := (entries r)(context_key self conv_id := None),
                           commands := Suc (commands r)\<rparr>)"
    by (simp add: clear_context_reachable)
next
  fix t
  assume "3 \<le> failures (circuit_breaker self) \<and> last_failure (circuit_breaker self) = Some t
          \<and> 0 \<le> now - t \<and> now - t < 30000000"
  then have "is_circuit_open now (circuit_breaker self) = (True, circuit_breaker self)"
    using assms by (simp add: is_circuit_open_rejects)
  then show "fst (get_conversation_context lib now conv_id (self, r)) = Inl RedisError"
    by (simp add: get_rejected)
next
  fix t
  assume "3 \<le> failures (circuit_breaker self) \<and> last_failure (circuit_breaker self) = Some t
          \<and> 0 \<le> now - t \<and> now - t < 30000000"
  then have "is_circuit_open now (circuit_breaker self) = (True, circuit_breaker self)"
    using assms by (simp add: is_circuit_open_rejects)
  then show "snd (snd (get_conversation_context lib now conv_id (self, r))) = r"
    by (simp add: get_rejected)
next
  fix t
  assume "3 \<le> failures (circuit_breaker self) \<and> last_failure (circuit_breaker self) = Some t
          \<and> 30000000 \<le> now - t \<and> now - t < 86400000000"
  then have "is_circuit_open now (circuit_breaker self)
               = (False, (circuit_breaker self)\<lparr>failures := 0, last_failure := None\<rparr>)"
    using assms by (simp add: is_circuit_open_resets)
  then show "get_conversation_context lib now conv_id (self, r)
               = get_conversation_context lib now conv_id
                   (self\<lparr>circuit_breaker :=
                      (circuit_breaker self)\<lparr>failures := 0, last_failure := None\<rparr>\<rparr>, r)"
    using assms(1) by (intro get_after_reset) simp_all
qed

theorem circuit_breaker_counts_and_rejects_witness:
  "get_conversation_context sample_lib 0 ''c1'' (sample_service, redis_state False 0)
     = (Inl RedisError, failed_service 1 0, redis_state False 1)
   \<and> update_context sample_lib 0 ''c1'' (PDict []) (sample_service, redis_state False 0)
     = (Inl RedisError, failed_service 1 0, redis_state False 1)
   \<and> clear_context 0 ''c1'' (sample_service, redis_state False 0)
     = (Inl RedisError, failed_service 1 0, redis_state False 1)
   \<and> snd (get_conversation_context sample_lib 0 ''c1'' (failed_service 2 0, redis_state True 0))
     = (failed_service 2 0, redis_state True 1)
   \<and> update_context sample_lib 0 ''c1'' (PDict []) (failed_service 2 0, redis_state True 0)
     = (Inr True, failed_service 2 0,
        \<lparr>entries = [''context:1.0:c1'' \<mapsto> (3600, ''{}'')], reachable = True, commands = 1\<rparr>)
   \<and> snd (clear_context 0 ''c1'' (failed_service 2 0, redis_state True 0))
     = (failed_service 2 0, redis_state True 1)
   \<and> fst (get_conversation_context sample_lib 1000000 ''c1'' (failed_service 3 0, redis_state True 0))
     = Inl RedisError
   \<and> snd (snd (get_conversation_context sample_lib 1000000 ''c1''
                 (failed_service 3 0, redis_state True 0)))
     = redis_state True 0
   \<and> get_conversation_context sample_lib 31000000 ''c1'' (failed_service 3 0, redis_state True 0)
     = get_conversation_context sample_lib 31000000 ''c1'' (sample_service, redis_state True 0)"
proof -
  have s1: "threshold (circuit_breaker sample_service) = 3"
    and s2: "reset_timeout (circuit_breaker sample_service) = 30"
    and s3: "failures (circuit_breaker sample_service) < 3"
    by (simp_all add: sample_service_def ContextService_init_def)
  have p1: "threshold (circuit_breaker (failed_service 2 0)) = 3"
    and p2: "reset_timeout (circuit_breaker (failed_service 2 0)) = 30"
    and p3: "failures (circuit_breaker (failed_service 2 0)) < 3"
    and p4: "context_key (failed_service 2 0) ''c1'' = ''context:1.0:c1''"
    and p5: "context_ttl (failed_service 2 0) = 3600"
    by (simp_all add: failed_service_def sample_service_def ContextService_init_def
                      context_key_def)
  have t1: "threshold (circuit_breaker (failed_service 3 0)) = 3"
    and t2: "reset_timeout (circuit_breaker (failed_service 3 0)) = 30"
    and t3: "3 \<le> failures (circuit_breaker (failed_service 3 0))"
    and t4: "last_failure (circuit_breaker (failed_service 3 0)) = Some 0"
    by (simp_all add: failed_service_def sample_service_def ContextService_init_def)
  have reset: "(failed_service 3 0)\<lparr>circuit_breaker :=
                  (circuit_breaker (failed_service 3 0))\<lparr>failures := 0, last_failure := None\<rparr>\<rparr>
               = sample_service"
    by (simp add: failed_service_def sample_service_def ContextService_init_def)
  have down: "\<not> reachable (redis_state False 0)"
    and up: "reachable (redis_state True 0)"
    and c1: "(redis_state False 0)\<lparr>commands := Suc (commands (redis_state False 0))\<rparr>
               = redis_state False 1"
    and c2: "(redis_state True 0)\<lparr>commands := Suc (commands (redis_state True 0))\<rparr>
               = redis_state True 1"
    and c3: "(redis_state True 0)\<lparr>entries := (entries (redis_state True 0))(''context:1.0:c1'' := None),
                                  commands := Suc (commands (redis_state True 0))\<rparr>
               = redis_state True 1"
    and c4: "(redis_state True 0)\<lparr>entries := (entries (redis_state True 0))
                                                (''context:1.0:c1'' \<mapsto> (3600, ''{}'')),
                                  commands := Suc (commands (redis_state True 0))\<rparr>
               = \<lparr>entries = [''context:1.0:c1'' \<mapsto> (3600, ''{}'')], reachable = True, commands = 1\<rparr>"
    by (simp_all add: redis_state_def)
  have st: "stored_text sample_lib 0 sample_service [] = Inr ''{}''"
    by (simp add: stored_text_def sample_lib_def human_reply_def greeting_reply_def
                  sample_service_def ContextService_init_def Let_def)
  have st2: "stored_text sample_lib 0 (failed_service 2 0) [] = Inr ''{}''"
    by (simp add: stored_text_def sample_lib_def human_reply_def greeting_reply_def
                  failed_service_def sample_service_def ContextService_init_def Let_def)
  note a = circuit_breaker_counts_and_rejects
             [OF s1 s2, of "redis_state False 0" sample_lib 0 "''c1''"]
  note b = circuit_breaker_counts_and_rejects
             [OF p1 p2, of "redis_state True 0" sample_lib 0 "''c1''"]
  note c = circuit_breaker_counts_and_rejects
             [OF t1 t2, of "redis_state True 0" sample_lib 1000000 "''c1''"]
  note d = circuit_breaker_counts_and_rejects
             [OF t1 t2, of "redis_state True 0" sample_lib 31000000 "''c1''"]
  have r1: "get_conversation_context sample_lib 0 ''c1'' (sample_service, redis_state False 0)
     = (Inl RedisError, failed_service 1 0, redis_state False 1)"
    using a s3 down by (simp add: c1 record_first_failure)
  have r2: "update_context sample_lib 0 ''c1'' (PDict []) (sample_service, redis_state False 0)
     = (Inl RedisError, failed_service 1 0, redis_state False 1)"
    using a s3 st down by (simp add: c1 record_first_failure)
  have r3: "clear_context 0 ''c1'' (sample_service, redis_state False 0)
     = (Inl RedisError, failed_service 1 0, redis_state False 1)"
    using a s3 down by (simp add: c1 record_first_failure)
  have r4: "snd (get_conversation_context sample_lib 0 ''c1'' (failed_service 2 0, redis_state True 0))
     = (failed_service 2 0, redis_state True 1)"
    using b p3 up by (simp add: c2)
  have r5: "update_context sample_lib 0 ''c1'' (PDict []) (failed_service 2 0, redis_state True 0)
     = (Inr True, failed_service 2 0,
        \<lparr>entries = [''context:1.0:c1'' \<mapsto> (3600, ''{}'')], reachable = True, commands = 1\<rparr>)"
    using b p3 st2 up by (simp add: c4 p4 p5)
  have r6: "snd (clear_context 0 ''c1'' (failed_service 2 0, redis_state True 0))
     = (failed_service 2 0, redis_state True 1)"
    using b p3 up by (simp add: c3 p4)
  have r7: "fst (get_conversation_context sample_lib 1000000 ''c1''
                   (failed_service 3 0, redis_state True 0)) = Inl RedisError"
    and r8: "snd (snd (get_conversation_context sample_lib 1000000 ''c1''
                         (failed_service 3 0, redis_state True 0))) = redis_state True 0"
    using c t3 t4 by simp_all
  have r9: "get_conversation_context sample_lib 31000000 ''c1'' (failed_service 3 0, redis_state True 0)
     = get_conversation_context sample_lib 31000000 ''c1'' (sample_service, redis_state True 0)"
    using d t3 t4 by (simp add: reset)
  from r1 r2 r3 r4 r5 r6 r7 r8 r9 show ?thesis by (intro conjI)
qed

text \<open>
  C8 as stated fails: the failures need not be consecutive. Three failures that alternate
  with successful reads open the breaker all the same. Of six reads one second apart, of
  which Redis fails to answer the first, the third and the fifth, the sixth raises
  RedisError although Redis would answer, and Redis has received five commands.
\<close>

theorem circuit_breaker_not_as_claimed:
  "fst (run_gets sample_lib ''c1'' alternating_reads (sample_service, redis_holding []))
     = [Inl RedisError, Inr (empty_context sample_lib 1000000),
        Inl RedisError, Inr (empty_context sample_lib 3000000),
        Inl RedisError, Inl RedisError]
   \<and> snd (snd (run_gets sample_lib ''c1'' alternating_reads (sample_service, redis_holding [])))
     = redis_state True 5"
proof -
  have g: "run_gets sample_lib ''c1'' alternating_reads (sample_service, redis_holding [])
     = ([Inl RedisError, Inr (empty_context sample_lib 1000000),
         Inl RedisError, Inr (empty_context sample_lib 3000000),
         Inl RedisError, Inl RedisError],
        failed_service 4 5000000, redis_state True 5)"
    by (simp add: alternating_reads_def redis_holding_nothing Let_def redis_state_reachable
                  first_failure next_failure success_keeps_count open_rejects)
       (simp add: eval_nat_numeral)
  show ?thesis by (simp add: g)
qed

section \<open>The metadata of a constructed intent\<close>

lemma Intent_init_succeeds:
  assumes "d_type data = Some t" and "d_confidence data = Some c" and "0 \<le> c" and "c \<le> 1"
    and "d_metadata data = None \<or> (\<exists>d. d_metadata data = Some (PDict d))"
  shows "\<exists>i. Intent_init lib now data = Inr i"
  using assms by (auto simp: Intent_init_def Let_def)

text \<open>
  C10. Every intent that the constructor of \<^verbatim>\<open>models/intent.py\<close> returns has, in its
  metadata, the key \<open>model_version\<close> with the value \<open>1.0.0\<close> and the key \<open>created_at\<close>
  with the time of construction, whatever the caller passed under those keys or whether
  the caller passed metadata at all; so its metadata is never empty.
\<close>

theorem Intent_init_metadata:
  assumes "Intent_init lib now data = Inr i"
  shows "dict_get (metadata i) ''model_version'' = Some (PStr ''1.0.0'')
       \<and> dict_get (metadata i) ''created_at'' = Some (PStr (isoformat lib now))
       \<and> metadata i \<noteq> []"
proof -
  from assms obtain d where
    "metadata i = dict_set ''model_version'' (PStr ''1.0.0'')
                    (dict_set ''created_at'' (PStr (isoformat lib now)) d)"
    by (auto simp: Intent_init_def Let_def simp del: dict_set.simps
             split: option.splits pyval.splits sum.splits if_splits)
  then show ?thesis
    by (simp add: dict_get_dict_set dict_set_not_empty)
qed

theorem Intent_init_metadata_witness:
  "Intent_init sample_lib 0 conflicting_data
     = Inr \<lparr>itype = QUESTION, confidence = 0.85, requires_human = False,
            metadata = [(''model_version'', PStr ''1.0.0''),
                        (''source'', PStr ''test''),
                        (''created_at'', PStr ''1970-01-01T00:00:00'')]\<rparr>
   \<and> dict_get [(''model_version'', PStr ''1.0.0''),
                (''source'', PStr ''test''),
                (''created_at'', PStr ''1970-01-01T00:00:00'')] ''model_version''
       = Some (PStr ''1.0.0'')"
proof -
  have e: "Intent_init sample_lib 0 conflicting_data
     = Inr \<lparr>itype = QUESTION, confidence = 0.85, requires_human = False,
            metadata = [(''model_version'', PStr ''1.0.0''),
                        (''source'', PStr ''test''),
                        (''created_at'', PStr ''1970-01-01T00:00:00'')]\<rparr>"
    by (simp add: Intent_init_def conflicting_data_def sample_lib_def human_reply_def greeting_reply_def Let_def)
  from Intent_init_metadata [OF e] e show ?thesis by simp
qed

end
